theory Spec2Isabelle
  imports Complex_Main
begin

section \<open>JavaScript objects as ordered property lists\<close>

text \<open>
  A plain JavaScript object is modelled by the list of its own enumerable properties, in
  the order in which \<^verbatim>\<open>Object.keys\<close> and \<^verbatim>\<open>JSON.stringify\<close> enumerate them.
  \<^verbatim>\<open>obj[k] = v\<close> overwrites the value of an existing key in place and appends a new key
  at the end; \<^verbatim>\<open>delete obj[k]\<close> removes the key. (The engine enumerates keys that are
  canonical array indices before all others; none of the keys that the response builder
  writes is one, and for the header map only the contents, never the position, of an
  entry is observed by the code. An assignment to the key \<^verbatim>\<open>__proto__\<close> is not an
  ordinary write; the header map, the one object that is written under keys of the
  source, models it in \<open>assignHeader\<close> below.)
\<close>

primrec setProp :: "string \<Rightarrow> 'v \<Rightarrow> (string \<times> 'v) list \<Rightarrow> (string \<times> 'v) list" where
  "setProp k v [] = [(k, v)]"
| "setProp k v (p # ps) = (if fst p = k then (k, v) # ps else p # setProp k v ps)"

definition deleteProp :: "string \<Rightarrow> (string \<times> 'v) list \<Rightarrow> (string \<times> 'v) list" where
  "deleteProp k ps = filter (\<lambda>p. fst p \<noteq> k) ps"

definition objectKeys :: "(string \<times> 'v) list \<Rightarrow> string list" where
  "objectKeys ps = map fst ps"

section \<open>The lookup orchestrator (src/db.ts)\<close>

text \<open>
  The database adapter (\<^verbatim>\<open>DbInterface\<close>) is an interface with two implementers that
  wrap third-party readers. It is a parameter of the model: \<open>get\<close> maps an IP string to
  the backend record, \<open>None\<close> standing for \<^verbatim>\<open>null\<close> (the lookup awaits the promise, so
  only the resolved value matters), and \<open>getStringValue\<close> maps a record or
  \<^verbatim>\<open>null\<close> and a field name to a string or \<^verbatim>\<open>null\<close>.
\<close>

record 'r DbInterface =
  get :: "string \<Rightarrow> 'r option"
  getStringValue :: "'r option \<Rightarrow> string \<Rightarrow> string option"

text \<open>The values a response object can hold, as JavaScript values.\<close>

datatype 'r jsout = OutNull | OutStr string | OutNum nat | OutData 'r

type_synonym 'r GeoIpApiResponse = "(string \<times> 'r jsout) list"

record 'r LookupResponse =
  error :: "string option"
  geoIpApiResponse :: "'r GeoIpApiResponse"

record 'r GwaDb =
  db_dbInterface :: "'r DbInterface"
  db_enabledOutputs :: "string list"

text \<open>
  The body of the \<^verbatim>\<open>forEach\<close> callback of \<^verbatim>\<open>geoIpApiResponse\<close>: one \<^verbatim>\<open>switch\<close> on the
  output name. \<^verbatim>\<open>ip || ''\<close> and \<^verbatim>\<open>ipVersion || 0\<close> replace \<^verbatim>\<open>null\<close> by the default.
\<close>

definition addOutput ::
  "'r DbInterface \<Rightarrow> 'r option \<Rightarrow> string option \<Rightarrow> nat option \<Rightarrow>
   string \<Rightarrow> 'r GeoIpApiResponse \<Rightarrow> 'r GeoIpApiResponse" where
  "addOutput dbi dbResult ip ipVersion output ret =
     (if output = ''ip'' then
        setProp output (OutStr (case ip of None \<Rightarrow> '''' | Some s \<Rightarrow> s)) ret
      else if output = ''ip_version'' then
        setProp output (OutNum (case ipVersion of None \<Rightarrow> 0 | Some n \<Rightarrow> n)) ret
      else if output = ''country'' \<or> output = ''subdivision'' then
        (case getStringValue dbi dbResult output of
           None \<Rightarrow> ret
         | Some v \<Rightarrow> setProp output (OutStr v) ret)
      else if output = ''data'' then
        (case dbResult of None \<Rightarrow> ret | Some d \<Rightarrow> setProp output (OutData d) ret)
      else ret)"

definition GwaDb_geoIpApiResponse ::
  "'r GwaDb \<Rightarrow> 'r option \<Rightarrow> string option \<Rightarrow> nat option \<Rightarrow> 'r GeoIpApiResponse" where
  "GwaDb_geoIpApiResponse db dbResult ip ipVersion =
     fold (addOutput (db_dbInterface db) dbResult ip ipVersion) (db_enabledOutputs db) []"

definition ipOutputs :: "string list" where
  "ipOutputs = [''ip'', ''ip_version'']"

definition isDbNeeded :: "'r GwaDb \<Rightarrow> bool" where
  "isDbNeeded db = (length (filter (\<lambda>option. option \<notin> set ipOutputs) (db_enabledOutputs db)) > 0)"

text \<open>
  \<^verbatim>\<open>lookup\<close>. \<open>isIP\<close> is Node's \<^verbatim>\<open>net.isIP\<close> (0, 4 or 6), a parameter. The result is
  paired with the list of arguments with which the adapter's \<open>get\<close> was called, so
  that a property can say that the database was not consulted.
\<close>

definition GwaDb_lookup ::
  "(string \<Rightarrow> nat) \<Rightarrow> 'r GwaDb \<Rightarrow> string \<Rightarrow> string list \<times> 'r LookupResponse" where
  "GwaDb_lookup isIP db ip =
     (let ipVersion = isIP ip;
          ret = \<lparr>error = None,
                 geoIpApiResponse = GwaDb_geoIpApiResponse db None (Some ip) (Some ipVersion)\<rparr>
      in if ipVersion = 0 then ([], ret\<lparr>error := Some (''Invalid IP: '' @ ip)\<rparr>)
         else if \<not> isDbNeeded db then ([], ret)
         else (case get (db_dbInterface db) ip of
                 None \<Rightarrow> ([ip], ret\<lparr>error := Some (''Failed to search database for IP: '' @ ip)\<rparr>)
               | Some dbResult \<Rightarrow>
                   ([ip], ret\<lparr>geoIpApiResponse :=
                            GwaDb_geoIpApiResponse db (Some dbResult) (Some ip) (Some ipVersion)\<rparr>)))"

section \<open>JavaScript values\<close>

text \<open>
  The configuration source is untrusted: any JavaScript value may arrive. The model
  covers the values of JSON documents, \<^verbatim>\<open>undefined\<close> and regular expression objects.
  A number is \<^verbatim>\<open>NaN\<close>, an infinity or finite; a finite double is the rational number
  it denotes, on which comparison and \<^verbatim>\<open>Math.floor\<close> are exact. Strings are lists of
  8-bit characters; white space and letter case are those of ASCII.
\<close>

datatype jsnum = NaN | PosInf | NegInf | Fin rat

datatype regexp = RegExp (source: string) (flags: string)

datatype jsval =
    JUndefined
  | JNull
  | JBool bool
  | JNum jsnum
  | JStr string
  | JArr "jsval list"
  | JObj "(string \<times> jsval) list"
  | JRegExp regexp

text \<open>\<^verbatim>\<open>a <= b\<close> and \<^verbatim>\<open>a < b\<close> on numbers: false as soon as one side is \<^verbatim>\<open>NaN\<close>.\<close>

fun num_le :: "jsnum \<Rightarrow> jsnum \<Rightarrow> bool" where
  "num_le NaN _ = False"
| "num_le _ NaN = False"
| "num_le NegInf _ = True"
| "num_le _ PosInf = True"
| "num_le PosInf _ = False"
| "num_le _ NegInf = False"
| "num_le (Fin a) (Fin b) = (a \<le> b)"

fun num_lt :: "jsnum \<Rightarrow> jsnum \<Rightarrow> bool" where
  "num_lt NaN _ = False"
| "num_lt _ NaN = False"
| "num_lt PosInf _ = False"
| "num_lt _ NegInf = False"
| "num_lt NegInf _ = True"
| "num_lt _ PosInf = True"
| "num_lt (Fin a) (Fin b) = (a < b)"

fun mathFloor :: "jsnum \<Rightarrow> jsnum" where
  "mathFloor (Fin a) = Fin (of_int \<lfloor>a\<rfloor>)"
| "mathFloor n = n"

text \<open>
  \<^verbatim>\<open>ToNumber\<close>, applied by the relational operators and by \<^verbatim>\<open>Math.floor\<close> to an
  operand that is not a number. The conversion of strings and of objects (through
  \<^verbatim>\<open>ToPrimitive\<close>) is the engine's and is taken as the parameter \<open>coerce\<close>.
\<close>

fun toNumber :: "(jsval \<Rightarrow> jsnum) \<Rightarrow> jsval \<Rightarrow> jsnum" where
  "toNumber coerce JUndefined = NaN"
| "toNumber coerce JNull = Fin 0"
| "toNumber coerce (JBool b) = Fin (if b then 1 else 0)"
| "toNumber coerce (JNum n) = n"
| "toNumber coerce v = coerce v"

text \<open>\<^verbatim>\<open>v instanceof Object\<close> and \<^verbatim>\<open>Array.isArray(v)\<close>.\<close>

fun instanceofObject :: "jsval \<Rightarrow> bool" where
  "instanceofObject (JArr _) = True"
| "instanceofObject (JObj _) = True"
| "instanceofObject (JRegExp _) = True"
| "instanceofObject _ = False"

fun isArray :: "jsval \<Rightarrow> bool" where
  "isArray (JArr _) = True"
| "isArray _ = False"

text \<open>The decimal numeral of an array index, the key under which an array holds an element.\<close>

definition digitChar :: "nat \<Rightarrow> char" where
  "digitChar d = ''0123456789'' ! d"

fun indexKey :: "nat \<Rightarrow> string" where
  "indexKey n = (if n < 10 then [digitChar n] else indexKey (n div 10) @ [digitChar (n mod 10)])"

text \<open>
  The own enumerable properties of a value, in enumeration order: the entries of an
  object, the elements of an array under their indices. \<open>getProp\<close> is the property read
  \<^verbatim>\<open>v[k]\<close>, \<^verbatim>\<open>undefined\<close> for a missing key (the overlay reads no name that the
  prototypes define).
\<close>

fun ownProps :: "jsval \<Rightarrow> (string \<times> jsval) list" where
  "ownProps (JObj kvs) = kvs"
| "ownProps (JArr xs) = zip (map indexKey [0..<length xs]) xs"
| "ownProps _ = []"

definition getProp :: "jsval \<Rightarrow> string \<Rightarrow> jsval" where
  "getProp v k = (case map_of (ownProps v) k of None \<Rightarrow> JUndefined | Some x \<Rightarrow> x)"

definition keysOf :: "jsval \<Rightarrow> string list" where
  "keysOf v = objectKeys (ownProps v)"

subsection \<open>String built-ins\<close>

definition isWhiteSpace :: "char \<Rightarrow> bool" where
  "isWhiteSpace c = (c \<in> set [CHR 0x09, CHR 0x0A, CHR 0x0B, CHR 0x0C, CHR 0x0D, CHR '' ''])"

definition trim :: "string \<Rightarrow> string" where
  "trim s = rev (dropWhile isWhiteSpace (rev (dropWhile isWhiteSpace s)))"

definition lowerChar :: "char \<Rightarrow> char" where
  "lowerChar c =
     (case map_of (zip ''ABCDEFGHIJKLMNOPQRSTUVWXYZ'' ''abcdefghijklmnopqrstuvwxyz'') c of
        None \<Rightarrow> c
      | Some d \<Rightarrow> d)"

definition toLowerCase :: "string \<Rightarrow> string" where
  "toLowerCase s = map lowerChar s"

section \<open>Path expansion (src/utils.ts)\<close>

text \<open>
  What the code takes from the platform: \<^verbatim>\<open>os.homedir()\<close>, \<^verbatim>\<open>path.sep\<close>, and the
  value of \<^verbatim>\<open>path.join(process.cwd(), 'GeoLite2-Country.mmdb')\<close>, the default MaxMind
  database path.
\<close>

record platform =
  homedir :: string
  sep :: string
  defaultMaxMindDbPath :: string

definition isWordChar :: "char \<Rightarrow> bool" where
  "isWordChar c =
     (c \<in> set ''ABCDEFGHIJKLMNOPQRSTUVWXYZabcdefghijklmnopqrstuvwxyz0123456789_'')"

text \<open>The regular expression \<^verbatim>\<open>/^[\w.][\w.\-]*$/\<close>.\<close>

definition isPosixUsername :: "string \<Rightarrow> bool" where
  "isPosixUsername user =
     (case user of
        [] \<Rightarrow> False
      | c # cs \<Rightarrow> (isWordChar c \<or> c = CHR ''.'') \<and>
                 list_all (\<lambda>d. isWordChar d \<or> d = CHR ''.'' \<or> d = CHR ''-'') cs)"

definition expandTildePath :: "platform \<Rightarrow> string \<Rightarrow> string" where
  "expandTildePath pf path =
     (case path of
        [] \<Rightarrow> path
      | c # rest \<Rightarrow>
          if c \<noteq> CHR ''~'' \<or> sep pf \<noteq> ''/'' then path
          else if length path = 1 then homedir pf
          else if hd rest = CHR ''/'' then homedir pf @ drop 1 path
          else
            let user = takeWhile (\<lambda>d. d \<noteq> CHR ''/'') rest
            in if isPosixUsername user then ''/home/'' @ user @ drop (1 + length user) path
               else path)"

section \<open>Application options (src/options.ts)\<close>

datatype DbProvider = UNKNOWN | MAXMIND | IP2LOCATION

record EnabledOutputs =
  eo_country :: bool
  eo_subdivision :: bool
  eo_ip :: bool
  eo_ip_version :: bool
  eo_data :: bool

datatype regexOrString = OfString string | OfRegExp regexp

record CorsOptions =
  origins :: "string list option"
  originRegEx :: "regexOrString option"

record MaxMindOptions =
  mm_dbPath :: string

record IP2LocationOptions =
  i2l_dbPath :: string
  i2l_subdivisionCsvPath :: string

text \<open>
  \<open>logLevel\<close> and \<open>port\<close> are JavaScript numbers. \<open>getHeaders\<close> maps a header name to a
  string or to \<^verbatim>\<open>null\<close> (\<open>None\<close>).
\<close>

record AppOptions =
  logLevel :: jsnum
  port :: jsnum
  enabledOutputs :: EnabledOutputs
  prettyOutput :: bool
  getHeaders :: "(string \<times> string option) list"
  getPaths :: "string list"
  cors :: CorsOptions
  maxmind :: MaxMindOptions
  ip2location :: IP2LocationOptions

text \<open>The enumeration \<^verbatim>\<open>LogLevel\<close> of src/log.ts: OFF = 0, ..., DEBUG = 4.\<close>

definition LogLevel_OFF :: jsnum where "LogLevel_OFF = Fin 0"
definition LogLevel_INFO :: jsnum where "LogLevel_INFO = Fin 3"
definition LogLevel_DEBUG :: jsnum where "LogLevel_DEBUG = Fin 4"

definition getDefaultOptions :: "platform \<Rightarrow> AppOptions" where
  "getDefaultOptions pf =
     \<lparr>logLevel = LogLevel_INFO,
      port = Fin 3000,
      enabledOutputs = \<lparr>eo_country = True, eo_subdivision = True, eo_ip = False,
                        eo_ip_version = False, eo_data = False\<rparr>,
      prettyOutput = False,
      getHeaders = [],
      getPaths = [''/'', ''/*''],
      cors = \<lparr>origins = None, originRegEx = None\<rparr>,
      maxmind = \<lparr>mm_dbPath = defaultMaxMindDbPath pf\<rparr>,
      ip2location = \<lparr>i2l_dbPath = '''', i2l_subdivisionCsvPath = ''''\<rparr>\<rparr>"

text \<open>
  The names of the output toggles, as \<^verbatim>\<open>Object.keys(target.enabledOutputs)\<close> lists them,
  and the assignment \<^verbatim>\<open>target.enabledOutputs[output] = b\<close> for one of them.
\<close>

definition knownOutputs :: "string list" where
  "knownOutputs = [''country'', ''subdivision'', ''ip'', ''ip_version'', ''data'']"

definition setOutput :: "string \<Rightarrow> bool \<Rightarrow> EnabledOutputs \<Rightarrow> EnabledOutputs" where
  "setOutput output b t =
     (if output = ''country'' then t\<lparr>eo_country := b\<rparr>
      else if output = ''subdivision'' then t\<lparr>eo_subdivision := b\<rparr>
      else if output = ''ip'' then t\<lparr>eo_ip := b\<rparr>
      else if output = ''ip_version'' then t\<lparr>eo_ip_version := b\<rparr>
      else if output = ''data'' then t\<lparr>eo_data := b\<rparr>
      else t)"

text \<open>
  The header object under construction, \<^verbatim>\<open>target.getHeaders\<close>: its own properties, and
  whether its prototype has been replaced by \<^verbatim>\<open>null\<close>. It starts as \<^verbatim>\<open>{}\<close>, with the
  prototype \<^verbatim>\<open>Object.prototype\<close>.

  The assignment \<^verbatim>\<open>target.getHeaders[key] = headerValue\<close>. For the key \<^verbatim>\<open>__proto__\<close>, as
  long as the object has no own property of that name and still inherits from
  \<^verbatim>\<open>Object.prototype\<close>, the assignment runs the inherited setter and creates no property:
  the setter ignores a string and, given \<^verbatim>\<open>null\<close>, replaces the prototype by \<^verbatim>\<open>null\<close>.
  Every other assignment writes an own property.
\<close>

type_synonym headerObject = "(string \<times> string option) list \<times> bool"

definition assignHeader :: "string \<Rightarrow> string option \<Rightarrow> headerObject \<Rightarrow> headerObject" where
  "assignHeader key headerValue staged =
     (case staged of
        (props, protoNull) \<Rightarrow>
          if key = ''__proto__'' \<and> key \<notin> set (objectKeys props) \<and> \<not> protoNull
          then (props, headerValue = None)
          else (setProp key headerValue props, protoNull))"

text \<open>
  The body of the \<^verbatim>\<open>forEach\<close> over \<^verbatim>\<open>Object.keys(getHeaders)\<close>, the same text in both
  implementations. \<open>stageHeader\<close> is what happens to an accepted entry: \<^verbatim>\<open>find\<close> the
  staged key equal up to case, \<^verbatim>\<open>delete\<close> it when it is truthy (not the empty string),
  then assign. The header map of the configuration is the list of own properties at the
  end.
\<close>

definition stageHeader :: "string \<Rightarrow> string option \<Rightarrow> headerObject \<Rightarrow> headerObject" where
  "stageHeader key headerValue staged =
     (case staged of
        (props, protoNull) \<Rightarrow>
          let duplicateKey = find (\<lambda>h. toLowerCase h = toLowerCase key) (objectKeys props);
              props' = (case duplicateKey of
                          None \<Rightarrow> props
                        | Some d \<Rightarrow> if d \<noteq> '''' then deleteProp d props else props)
          in assignHeader key headerValue (props', protoNull))"

definition headerStep :: "jsval \<Rightarrow> string \<Rightarrow> headerObject \<Rightarrow> headerObject" where
  "headerStep hdrs key staged =
     (case getProp hdrs key of
        JStr s \<Rightarrow> stageHeader key (Some s) staged
      | JNull \<Rightarrow> stageHeader key None staged
      | _ \<Rightarrow> staged)"

definition overlayHeaders :: "jsval \<Rightarrow> (string \<times> string option) list" where
  "overlayHeaders hdrs = fst (fold (headerStep hdrs) (keysOf hdrs) ([], False))"

text \<open>
  \<^verbatim>\<open>.map((p) => (typeof p === 'string' ? p.trim() : '')).filter(Boolean)\<close>, applied to the
  path list and to the origin list in both implementations.
\<close>

definition trimmedStrings :: "jsval list \<Rightarrow> string list" where
  "trimmedStrings xs =
     filter (\<lambda>s. s \<noteq> '''') (map (\<lambda>p. case p of JStr s \<Rightarrow> trim s | _ \<Rightarrow> '''') xs)"

text \<open>Truthiness, and the coercion of an accepted \<^verbatim>\<open>originRegEx\<close> to the option's type.\<close>

fun truthy :: "jsval \<Rightarrow> bool" where
  "truthy JUndefined = False"
| "truthy JNull = False"
| "truthy (JBool b) = b"
| "truthy (JNum n) = (n \<noteq> NaN \<and> n \<noteq> Fin 0)"
| "truthy (JStr s) = (s \<noteq> '''')"
| "truthy _ = True"

fun typeofString :: "jsval \<Rightarrow> bool" where
  "typeofString (JStr _) = True"
| "typeofString _ = False"

fun instanceofRegExp :: "jsval \<Rightarrow> bool" where
  "instanceofRegExp (JRegExp _) = True"
| "instanceofRegExp _ = False"

fun asRegexOrString :: "jsval \<Rightarrow> regexOrString option" where
  "asRegexOrString (JStr s) = Some (OfString s)"
| "asRegexOrString (JRegExp r) = Some (OfRegExp r)"
| "asRegexOrString _ = None"

subsection \<open>\<^verbatim>\<open>overlayOptions\<close>, the TypeScript implementation (src/options.ts)\<close>

definition overlay_logLevel :: "jsval \<Rightarrow> AppOptions \<Rightarrow> AppOptions" where
  "overlay_logLevel src target =
     (case getProp src ''logLevel'' of
        JNum n \<Rightarrow>
          if num_le LogLevel_OFF n \<and> num_le n LogLevel_DEBUG
          then target\<lparr>logLevel := mathFloor n\<rparr> else target
      | _ \<Rightarrow> target)"

definition overlay_port :: "jsval \<Rightarrow> AppOptions \<Rightarrow> AppOptions" where
  "overlay_port src target =
     (case getProp src ''port'' of
        JNum p \<Rightarrow>
          if num_le (Fin 0) p \<and> num_le p (Fin 65535)
          then target\<lparr>port := mathFloor p\<rparr> else target
      | _ \<Rightarrow> target)"

definition outputStep :: "jsval \<Rightarrow> string \<Rightarrow> EnabledOutputs \<Rightarrow> EnabledOutputs" where
  "outputStep eo output t =
     (case getProp eo output of JBool outputValue \<Rightarrow> setOutput output outputValue t | _ \<Rightarrow> t)"

definition overlay_enabledOutputs :: "jsval \<Rightarrow> AppOptions \<Rightarrow> AppOptions" where
  "overlay_enabledOutputs src target =
     (let eo = getProp src ''enabledOutputs''
      in if instanceofObject eo
         then target\<lparr>enabledOutputs := fold (outputStep eo) knownOutputs (enabledOutputs target)\<rparr>
         else target)"

definition overlay_prettyOutput :: "jsval \<Rightarrow> AppOptions \<Rightarrow> AppOptions" where
  "overlay_prettyOutput src target =
     (case getProp src ''prettyOutput'' of
        JBool b \<Rightarrow> target\<lparr>prettyOutput := b\<rparr>
      | _ \<Rightarrow> target)"

definition overlay_getHeaders :: "jsval \<Rightarrow> AppOptions \<Rightarrow> AppOptions" where
  "overlay_getHeaders src target =
     (let hdrs = getProp src ''getHeaders''
      in if instanceofObject hdrs then target\<lparr>getHeaders := overlayHeaders hdrs\<rparr> else target)"

definition overlay_getPaths :: "jsval \<Rightarrow> AppOptions \<Rightarrow> AppOptions" where
  "overlay_getPaths src target =
     (case getProp src ''getPaths'' of
        JArr ps \<Rightarrow>
          (let paths = trimmedStrings ps
           in target\<lparr>getPaths := (if length paths = 0 then paths @ [''/''] else paths)\<rparr>)
      | _ \<Rightarrow> target)"

definition overlay_cors :: "jsval \<Rightarrow> AppOptions \<Rightarrow> AppOptions" where
  "overlay_cors src target =
     (let c = getProp src ''cors''
      in if \<not> instanceofObject c then target
         else
           let target1 = (case getProp c ''origins'' of
                            JArr os \<Rightarrow> target\<lparr>cors := (cors target)\<lparr>origins := Some (trimmedStrings os)\<rparr>\<rparr>
                          | _ \<Rightarrow> target);
               v = getProp c ''originRegEx'';
               originRegEx = (if typeofString v \<or> instanceofRegExp v then v else JUndefined)
           in if truthy originRegEx
              then target1\<lparr>cors := (cors target1)\<lparr>originRegEx := asRegexOrString originRegEx\<rparr>\<rparr>
              else target1)"

text \<open>The MaxMind section returns the target together with the flag \<^verbatim>\<open>maxMindDefined\<close>.\<close>

definition overlay_maxmind :: "platform \<Rightarrow> jsval \<Rightarrow> AppOptions \<Rightarrow> AppOptions \<times> bool" where
  "overlay_maxmind pf src target =
     (let mm = getProp src ''maxmind''
      in if \<not> instanceofObject mm then (target, False)
         else (case getProp mm ''dbPath'' of
                 JStr s \<Rightarrow>
                   (let dbPath = trim s
                    in if dbPath \<noteq> ''''
                       then (target\<lparr>maxmind := (maxmind target)\<lparr>mm_dbPath := expandTildePath pf dbPath\<rparr>\<rparr>,
                             True)
                       else (target, False))
               | _ \<Rightarrow> (target, False)))"

definition overlay_ip2location :: "platform \<Rightarrow> jsval \<Rightarrow> AppOptions \<Rightarrow> AppOptions" where
  "overlay_ip2location pf src target =
     (let i2l = getProp src ''ip2location''
      in if \<not> instanceofObject i2l then target
         else (case getProp i2l ''dbPath'' of
                 JStr s \<Rightarrow>
                   (let dbPath = trim s
                    in if dbPath = '''' then target
                       else
                         let target1 = target\<lparr>ip2location :=
                                          (ip2location target)\<lparr>i2l_dbPath := expandTildePath pf dbPath\<rparr>\<rparr>;
                             target2 = target1\<lparr>maxmind := (maxmind target1)\<lparr>mm_dbPath := ''''\<rparr>\<rparr>
                         in (case getProp i2l ''subdivisionCsvPath'' of
                               JStr c \<Rightarrow>
                                 (let subdivisionCsvPath = trim c
                                  in if subdivisionCsvPath \<noteq> ''''
                                     then target2\<lparr>ip2location :=
                                            (ip2location target2)\<lparr>i2l_subdivisionCsvPath :=
                                               expandTildePath pf subdivisionCsvPath\<rparr>\<rparr>
                                     else target2)
                             | _ \<Rightarrow> target2))
               | _ \<Rightarrow> target))"

definition overlayOptions :: "platform \<Rightarrow> jsval \<Rightarrow> AppOptions" where
  "overlayOptions pf unsafeSrc =
     (let target = getDefaultOptions pf
      in if \<not> instanceofObject unsafeSrc then target
         else
           let src = unsafeSrc;
               t1 = overlay_logLevel src target;
               t2 = overlay_port src t1;
               t3 = overlay_enabledOutputs src t2;
               t4 = overlay_prettyOutput src t3;
               t5 = overlay_getHeaders src t4;
               t6 = overlay_getPaths src t5;
               t7 = overlay_cors src t6;
               (t8, maxMindDefined) = overlay_maxmind pf src t7
           in if \<not> maxMindDefined then overlay_ip2location pf src t8 else t8)"

subsection \<open>\<^verbatim>\<open>getDbOptions\<close> and the construction of the backend\<close>

record GwaDbOptions =
  dbProvider :: DbProvider
  maxMindOptions :: "MaxMindOptions option"
  ip2LocationOptions :: "IP2LocationOptions option"

definition getDbOptions :: "AppOptions \<Rightarrow> GwaDbOptions" where
  "getDbOptions appOptions =
     (let gwaDbOptions = \<lparr>dbProvider = UNKNOWN, maxMindOptions = None, ip2LocationOptions = None\<rparr>
      in if mm_dbPath (maxmind appOptions) \<noteq> ''''
         then gwaDbOptions\<lparr>dbProvider := MAXMIND, maxMindOptions := Some (maxmind appOptions)\<rparr>
         else if i2l_dbPath (ip2location appOptions) \<noteq> ''''
         then gwaDbOptions\<lparr>dbProvider := IP2LOCATION,
                            ip2LocationOptions := Some (ip2location appOptions)\<rparr>
         else gwaDbOptions)"

text \<open>
  \<^verbatim>\<open>GwaDb.getDbInterface\<close> (src/db.ts): which adapter class is constructed, from which
  options, or the message of the error thrown.
\<close>

datatype backend = GwaMaxMind MaxMindOptions | GwaIP2Location IP2LocationOptions

definition getDbInterface :: "GwaDbOptions \<Rightarrow> string + backend" where
  "getDbInterface gwaDbOptions =
     (if dbProvider gwaDbOptions = MAXMIND then
        (case maxMindOptions gwaDbOptions of
           None \<Rightarrow> Inl ''[GwaDb] MaxMind database indicated but options not available''
         | Some opts \<Rightarrow> Inr (GwaMaxMind opts))
      else if dbProvider gwaDbOptions = IP2LOCATION then
        (case ip2LocationOptions gwaDbOptions of
           None \<Rightarrow> Inl ''[GwaDb] IP2Location database indicated but options not available''
         | Some opts \<Rightarrow> Inr (GwaIP2Location opts))
      else Inl ''[GwaDb] Could not identify a database to load'')"

subsection \<open>\<^verbatim>\<open>overlayOptions\<close>, the JavaScript implementation (options.js)\<close>

text \<open>
  The JavaScript file applies the relational operators and \<^verbatim>\<open>Math.floor\<close> to the
  source values as they are, so each operand goes through \<^verbatim>\<open>ToNumber\<close>. It imports
  \<^verbatim>\<open>expandTildePath\<close> from the utilities module, of which the sources hold the TypeScript
  text; that one is used here.
\<close>

definition overlay_logLevel_js :: "(jsval \<Rightarrow> jsnum) \<Rightarrow> jsval \<Rightarrow> AppOptions \<Rightarrow> AppOptions" where
  "overlay_logLevel_js coerce src target =
     (let n = toNumber coerce (getProp src ''logLevel'')
      in if num_le (Fin 0) n \<and> num_le n (Fin 4)
         then target\<lparr>logLevel := mathFloor n\<rparr> else target)"

definition overlay_port_js :: "(jsval \<Rightarrow> jsnum) \<Rightarrow> jsval \<Rightarrow> AppOptions \<Rightarrow> AppOptions" where
  "overlay_port_js coerce src target =
     (let n = toNumber coerce (getProp src ''port'')
      in if num_lt (Fin 0) n then target\<lparr>port := mathFloor n\<rparr> else target)"

definition overlay_enabledOutputs_js :: "jsval \<Rightarrow> AppOptions \<Rightarrow> AppOptions" where
  "overlay_enabledOutputs_js src target =
     (let eo = getProp src ''enabledOutputs''
      in if instanceofObject eo
         then target\<lparr>enabledOutputs :=
                fold (outputStep eo) (filter (\<lambda>output. output \<in> set knownOutputs) (keysOf eo))
                  (enabledOutputs target)\<rparr>
         else target)"

definition overlay_cors_js :: "jsval \<Rightarrow> AppOptions \<Rightarrow> AppOptions" where
  "overlay_cors_js src target =
     (let c = getProp src ''cors''
      in if \<not> instanceofObject c then target
         else
           let target1 = (case getProp c ''origins'' of
                            JArr os \<Rightarrow> target\<lparr>cors := (cors target)\<lparr>origins := Some (trimmedStrings os)\<rparr>\<rparr>
                          | _ \<Rightarrow> target);
               v = getProp c ''originRegEx''
           in if truthy v \<and> (typeofString v \<or> instanceofRegExp v)
              then target1\<lparr>cors := (cors target1)\<lparr>originRegEx := asRegexOrString v\<rparr>\<rparr>
              else target1)"

definition overlay_maxmind_js :: "platform \<Rightarrow> jsval \<Rightarrow> AppOptions \<Rightarrow> AppOptions \<times> bool" where
  "overlay_maxmind_js pf src target =
     (let mm = getProp src ''maxmind''
      in if \<not> instanceofObject mm then (target, False)
         else (case getProp mm ''dbPath'' of
                 JStr s \<Rightarrow>
                   if s \<noteq> ''''
                   then (target\<lparr>maxmind := (maxmind target)\<lparr>mm_dbPath := expandTildePath pf s\<rparr>\<rparr>, True)
                   else (target, False)
               | _ \<Rightarrow> (target, False)))"

definition overlay_ip2location_js :: "platform \<Rightarrow> jsval \<Rightarrow> AppOptions \<Rightarrow> AppOptions" where
  "overlay_ip2location_js pf src target =
     (let i2l = getProp src ''ip2location''
      in if \<not> instanceofObject i2l then target
         else (case getProp i2l ''dbPath'' of
                 JStr s \<Rightarrow>
                   if s = '''' then target
                   else
                     let target1 = target\<lparr>ip2location :=
                                      (ip2location target)\<lparr>i2l_dbPath := expandTildePath pf s\<rparr>\<rparr>;
                         target2 = target1\<lparr>maxmind := (maxmind target1)\<lparr>mm_dbPath := ''''\<rparr>\<rparr>
                     in (case getProp i2l ''subdivisionCsvPath'' of
                           JStr c \<Rightarrow>
                             if c \<noteq> ''''
                             then target2\<lparr>ip2location :=
                                    (ip2location target2)\<lparr>i2l_subdivisionCsvPath :=
                                       expandTildePath pf c\<rparr>\<rparr>
                             else target2
                         | _ \<Rightarrow> target2)
               | _ \<Rightarrow> target))"

definition overlayOptions_js :: "platform \<Rightarrow> (jsval \<Rightarrow> jsnum) \<Rightarrow> jsval \<Rightarrow> AppOptions" where
  "overlayOptions_js pf coerce src =
     (let target = getDefaultOptions pf
      in if \<not> instanceofObject src then target
         else
           let t1 = overlay_logLevel_js coerce src target;
               t2 = overlay_port_js coerce src t1;
               t3 = overlay_enabledOutputs_js src t2;
               t4 = overlay_prettyOutput src t3;
               t5 = overlay_getHeaders src t4;
               t6 = overlay_getPaths src t5;
               t7 = overlay_cors_js src t6;
               (t8, maxMindDefined) = overlay_maxmind_js pf src t7
           in if \<not> maxMindDefined then overlay_ip2location_js pf src t8 else t8)"

section \<open>The CORS matcher (cors.ts)\<close>

text \<open>
  \<open>urlOrigin\<close> is \<^verbatim>\<open>new URL(o).origin\<close>, \<open>None\<close> when the constructor throws; \<open>rxValid\<close>
  says whether \<^verbatim>\<open>new RegExp(s, 'i')\<close> succeeds; \<open>rxTest\<close> is \<^verbatim>\<open>RegExp.prototype.test\<close>.
  All three belong to the platform and are parameters. What the class logs is left out.
\<close>

record GwaCors =
  cors_origins :: "string list option"
  cors_originRegEx :: "regexp option"

definition sanitizeOrigins :: "(string \<Rightarrow> string option) \<Rightarrow> string list option \<Rightarrow> string list option" where
  "sanitizeOrigins urlOrigin origs =
     (case origs of
        None \<Rightarrow> None
      | Some os \<Rightarrow>
          (let sanitizedOrigins =
                 filter (\<lambda>x. x \<noteq> '''')
                   (map (\<lambda>x. case urlOrigin x of Some orig \<Rightarrow> orig | None \<Rightarrow> '''')
                      (filter (\<lambda>x. x \<noteq> '''') (map trim os)))
           in if length sanitizedOrigins \<noteq> 0 then Some sanitizedOrigins else None))"

definition parseOriginsRegEx :: "(string \<Rightarrow> bool) \<Rightarrow> regexOrString option \<Rightarrow> regexp option" where
  "parseOriginsRegEx rxValid rx =
     (case rx of
        Some (OfString s) \<Rightarrow> if rxValid s then Some (RegExp s ''i'') else None
      | Some (OfRegExp r) \<Rightarrow> Some r
      | None \<Rightarrow> None)"

text \<open>The constructor: \<^verbatim>\<open>options.originRegEx || null\<close> turns the empty string into \<^verbatim>\<open>null\<close>.\<close>

definition GwaCors_new ::
  "(string \<Rightarrow> string option) \<Rightarrow> (string \<Rightarrow> bool) \<Rightarrow> CorsOptions \<Rightarrow> GwaCors" where
  "GwaCors_new urlOrigin rxValid options =
     \<lparr>cors_origins = sanitizeOrigins urlOrigin (origins options),
      cors_originRegEx =
        parseOriginsRegEx rxValid
          (case originRegEx options of Some (OfString []) \<Rightarrow> None | rx \<Rightarrow> rx)\<rparr>"

definition setOrigins :: "(string \<Rightarrow> string option) \<Rightarrow> string list option \<Rightarrow> GwaCors \<Rightarrow> GwaCors" where
  "setOrigins urlOrigin origs c = c\<lparr>cors_origins := sanitizeOrigins urlOrigin origs\<rparr>"

definition setOriginRegEx :: "(string \<Rightarrow> bool) \<Rightarrow> regexOrString option \<Rightarrow> GwaCors \<Rightarrow> GwaCors" where
  "setOriginRegEx rxValid rx c = c\<lparr>cors_originRegEx := parseOriginsRegEx rxValid rx\<rparr>"

definition isCorsOrigin :: "(regexp \<Rightarrow> string \<Rightarrow> bool) \<Rightarrow> GwaCors \<Rightarrow> string \<Rightarrow> bool" where
  "isCorsOrigin rxTest c origin =
     (origin \<noteq> '''' \<and>
      ((case cors_origins c of Some os \<Rightarrow> origin \<in> set os | None \<Rightarrow> False) \<or>
       (case cors_originRegEx c of Some r \<Rightarrow> rxTest r origin | None \<Rightarrow> False)))"

definition getCorsHeaders ::
  "(regexp \<Rightarrow> string \<Rightarrow> bool) \<Rightarrow> GwaCors \<Rightarrow> string option \<Rightarrow> (string \<times> string) list option" where
  "getCorsHeaders rxTest c origin =
     (case origin of
        None \<Rightarrow> None
      | Some orig \<Rightarrow>
          if orig \<noteq> '''' \<and> isCorsOrigin rxTest c orig
          then Some [(''Access-Control-Allow-Origin'', orig)]
          else None)"

section \<open>Notions used to state the properties\<close>

text \<open>
  The entry that one pass of the \<^verbatim>\<open>switch\<close> of \<^verbatim>\<open>geoIpApiResponse\<close> assigns for an output
  name, \<open>None\<close> when that pass assigns nothing (\<open>addOutput_entry\<close> below relates it to the
  code).
\<close>

definition outputEntry ::
  "'r DbInterface \<Rightarrow> 'r option \<Rightarrow> string option \<Rightarrow> nat option \<Rightarrow> string \<Rightarrow> 'r jsout option" where
  "outputEntry dbi dbResult ip ipVersion output =
     (if output = ''ip'' then Some (OutStr (case ip of None \<Rightarrow> '''' | Some s \<Rightarrow> s))
      else if output = ''ip_version'' then Some (OutNum (case ipVersion of None \<Rightarrow> 0 | Some n \<Rightarrow> n))
      else if output = ''country'' \<or> output = ''subdivision'' then
        map_option OutStr (getStringValue dbi dbResult output)
      else if output = ''data'' then map_option OutData dbResult
      else None)"

text \<open>A list without its repetitions, each element at its first occurrence.\<close>

primrec firstOccurrences :: "'a list \<Rightarrow> 'a list" where
  "firstOccurrences [] = []"
| "firstOccurrences (x # xs) = x # filter (\<lambda>y. y \<noteq> x) (firstOccurrences xs)"

text \<open>
  The order of keys that the specification calls canonical, and what it means for the keys
  of a response to appear in that order.
\<close>

definition spec_canonicalOrder :: "string list" where
  "spec_canonicalOrder = [''ip'', ''ip_version'', ''country'', ''subdivision'', ''data'']"

definition spec_inCanonicalOrder :: "string list \<Rightarrow> bool" where
  "spec_inCanonicalOrder ks = (ks = filter (\<lambda>k. k \<in> set ks) spec_canonicalOrder)"

text \<open>
  The path that a section object supplies under a field: the trimmed string, when the
  section is an object and the field holds a string that is not blank.
\<close>

definition suppliedPath :: "jsval \<Rightarrow> string \<Rightarrow> string option" where
  "suppliedPath section field =
     (if instanceofObject section
      then (case getProp section field of
              JStr s \<Rightarrow> if trim s \<noteq> '''' then Some (trim s) else None
            | _ \<Rightarrow> None)
      else None)"

text \<open>
  What the specification says happens to one entry of an origin list: it is trimmed,
  dropped when blank, parsed as a URL and reduced to its origin, dropped when the parse
  fails (or when the origin is the empty string, which the code's second filter drops).
\<close>

definition spec_sanitizeEntry :: "(string \<Rightarrow> string option) \<Rightarrow> string \<Rightarrow> string option" where
  "spec_sanitizeEntry urlOrigin entry =
     (if trim entry = '''' then None
      else (case urlOrigin (trim entry) of
              None \<Rightarrow> None
            | Some orig \<Rightarrow> if orig = '''' then None else Some orig))"

text \<open>
  An entry of the source header object is accepted when its value is a string or
  \<^verbatim>\<open>null\<close>; the value staged for it is the string, or \<^verbatim>\<open>null\<close> (\<open>None\<close>).
\<close>

definition acceptedHeader :: "jsval \<Rightarrow> string \<Rightarrow> bool" where
  "acceptedHeader hdrs key = (typeofString (getProp hdrs key) \<or> getProp hdrs key = JNull)"

definition headerValueOf :: "jsval \<Rightarrow> string \<Rightarrow> string option" where
  "headerValueOf hdrs key = (case getProp hdrs key of JStr s \<Rightarrow> Some s | _ \<Rightarrow> None)"

text \<open>The value of a toggle after the overlay: the source's boolean, or the previous value.\<close>

definition toggleOr :: "jsval \<Rightarrow> bool \<Rightarrow> bool" where
  "toggleOr v d = (case v of JBool b \<Rightarrow> b | _ \<Rightarrow> d)"

text \<open>
  The sources on which the two implementations of \<^verbatim>\<open>overlayOptions\<close> are compared:
  \<^verbatim>\<open>logLevel\<close> and \<^verbatim>\<open>port\<close> are absent or numbers, the port is neither 0 nor above 65535,
  and the three path fields, where they are strings, have no white space at either end.
\<close>

definition numberOrAbsent :: "jsval \<Rightarrow> bool" where
  "numberOrAbsent v = (case v of JUndefined \<Rightarrow> True | JNum n \<Rightarrow> True | _ \<Rightarrow> False)"

definition portInCommonRange :: "jsval \<Rightarrow> bool" where
  "portInCommonRange v =
     (case v of
        JUndefined \<Rightarrow> True
      | JNum n \<Rightarrow> n \<noteq> Fin 0 \<and> \<not> num_lt (Fin 65535) n
      | _ \<Rightarrow> False)"

definition trimmedIfString :: "jsval \<Rightarrow> bool" where
  "trimmedIfString v = (case v of JStr s \<Rightarrow> trim s = s | _ \<Rightarrow> True)"

definition implementationsAgreeOn :: "jsval \<Rightarrow> bool" where
  "implementationsAgreeOn src =
     (numberOrAbsent (getProp src ''logLevel'') \<and>
      portInCommonRange (getProp src ''port'') \<and>
      trimmedIfString (getProp (getProp src ''maxmind'') ''dbPath'') \<and>
      trimmedIfString (getProp (getProp src ''ip2location'') ''dbPath'') \<and>
      trimmedIfString (getProp (getProp src ''ip2location'') ''subdivisionCsvPath''))"

subsection \<open>Concrete inputs for the examples\<close>

text \<open>
  A classifier that knows two addresses, and an adapter over records that are country
  codes: it holds one address and no subdivision.
\<close>

definition example_isIP :: "string \<Rightarrow> nat" where
  "example_isIP s = (if s = ''8.8.8.8'' then 4 else if s = ''::1'' then 6 else 0)"

definition example_adapter :: "string DbInterface" where
  "example_adapter =
     \<lparr>get = (\<lambda>a. if a = ''8.8.8.8'' then Some ''US'' else None),
      getStringValue = (\<lambda>r k. if k = ''country'' then r else None)\<rparr>"

definition example_db :: "string list \<Rightarrow> string GwaDb" where
  "example_db outputs = \<lparr>db_dbInterface = example_adapter, db_enabledOutputs = outputs\<rparr>"

text \<open>
  A POSIX platform, and a coercion that turns every string and object into \<^verbatim>\<open>NaN\<close>.
\<close>

definition example_platform :: platform where
  "example_platform =
     \<lparr>homedir = ''/home/geo'', sep = ''/'', defaultMaxMindDbPath = ''/srv/GeoLite2-Country.mmdb''\<rparr>"

definition example_coerce :: "jsval \<Rightarrow> jsnum" where
  "example_coerce v = NaN"

text \<open>A source that configures both backends, the MaxMind path with surrounding blanks.\<close>

definition example_bothBackends :: jsval where
  "example_bothBackends =
     JObj [(''maxmind'', JObj [(''dbPath'', JStr '' ~/geo.mmdb '')]),
           (''ip2location'', JObj [(''dbPath'', JStr ''/db/ip2location.bin'')])]"

text \<open>A URL parser that knows one URL, a matcher with one listed origin, a regex test.\<close>

definition example_urlOrigin :: "string \<Rightarrow> string option" where
  "example_urlOrigin s =
     (if s = ''https://example.com/'' then Some ''https://example.com'' else None)"

definition example_cors :: GwaCors where
  "example_cors = \<lparr>cors_origins = Some [''https://example.com''], cors_originRegEx = None\<rparr>"

definition example_rxTest :: "regexp \<Rightarrow> string \<Rightarrow> bool" where
  "example_rxTest r s = False"

text \<open>A header object with two spellings of one name and an entry that is not accepted.\<close>

definition example_headers :: jsval where
  "example_headers =
     JObj [(''X-Foo'', JStr ''1''), (''Skip'', JNum (Fin 1)), (''x-foo'', JNull)]"

text \<open>A header object with two spellings of the name \<^verbatim>\<open>__proto__\<close>.\<close>

definition example_protoHeaders :: jsval where
  "example_protoHeaders = JObj [(''__PROTO__'', JStr ''b''), (''__proto__'', JStr ''a'')]"

text \<open>Sources for the comparison of the two implementations.\<close>

definition example_paddedPath :: jsval where
  "example_paddedPath = JObj [(''maxmind'', JObj [(''dbPath'', JStr '' /db/geo.mmdb '')])]"

definition example_wellTyped :: jsval where
  "example_wellTyped =
     JObj [(''logLevel'', JNum (Fin (9 / 2))),
           (''port'', JNum (Fin 8080)),
           (''enabledOutputs'', JObj [(''ip'', JBool True)]),
           (''maxmind'', JObj [(''dbPath'', JStr ''~/geo.mmdb'')])]"

definition example_port0 :: jsval where
  "example_port0 = JObj [(''port'', JNum (Fin 0))]"

definition example_port70000 :: jsval where
  "example_port70000 = JObj [(''port'', JNum (Fin 70000))]"

definition example_logLevelNull :: jsval where
  "example_logLevelNull = JObj [(''logLevel'', JNull)]"

section \<open>Properties of the property lists\<close>

lemma keys_setProp:
  "map fst (setProp k v ps) = (if k \<in> fst ` set ps then map fst ps else map fst ps @ [k])"
  by (induction ps) auto

lemma dom_setProp: "fst ` set (setProp k v ps) = insert k (fst ` set ps)"
  by (induction ps) auto

lemma map_of_setProp: "map_of (setProp k v ps) = (map_of ps)(k \<mapsto> v)"
  by (induction ps) auto

lemma set_firstOccurrences: "set (firstOccurrences xs) = set xs"
  by (induction xs) auto

lemma firstOccurrences_distinct: "distinct xs \<Longrightarrow> firstOccurrences xs = xs"
  by (induction xs) (auto simp: set_firstOccurrences intro: filter_True)

section \<open>Properties of the lookup orchestrator\<close>

lemma addOutput_entry:
  "addOutput dbi r ip v k ret =
     (case outputEntry dbi r ip v k of None \<Rightarrow> ret | Some x \<Rightarrow> setProp k x ret)"
  by (simp add: addOutput_def outputEntry_def split: option.splits)

lemma map_of_fold_addOutput:
  "map_of (fold (addOutput dbi r ip v) ks acc) k =
     (if k \<in> set ks \<and> outputEntry dbi r ip v k \<noteq> None then outputEntry dbi r ip v k
      else map_of acc k)"
  by (induction ks arbitrary: acc) (auto simp: addOutput_entry map_of_setProp split: option.splits)

lemma keys_fold_addOutput:
  "map fst (fold (addOutput dbi r ip v) ks acc) =
     map fst acc @
     filter (\<lambda>k. outputEntry dbi r ip v k \<noteq> None \<and> k \<notin> fst ` set acc) (firstOccurrences ks)"
proof (induction ks arbitrary: acc)
  case Nil
  then show ?case by simp
next
  case (Cons k ks)
  show ?case
  proof (cases "outputEntry dbi r ip v k")
    case None
    then have "addOutput dbi r ip v k acc = acc"
      by (simp add: addOutput_entry)
    with None Cons show ?thesis
      by (auto intro!: filter_cong)
  next
    case (Some x)
    then have step: "addOutput dbi r ip v k acc = setProp k x acc"
      by (simp add: addOutput_entry)
    show ?thesis
      by (auto simp: step Cons keys_setProp dom_setProp Some intro!: filter_cong)
  qed
qed

lemma map_of_response:
  "map_of (GwaDb_geoIpApiResponse db r ip v) k =
     (if k \<in> set (db_enabledOutputs db) then outputEntry (db_dbInterface db) r ip v k else None)"
  by (simp add: GwaDb_geoIpApiResponse_def map_of_fold_addOutput)

lemma keys_response:
  "map fst (GwaDb_geoIpApiResponse db r ip v) =
     filter (\<lambda>k. outputEntry (db_dbInterface db) r ip v k \<noteq> None)
       (firstOccurrences (db_enabledOutputs db))"
  by (simp add: GwaDb_geoIpApiResponse_def keys_fold_addOutput)

lemma distinct_keys_response: "distinct (map fst (GwaDb_geoIpApiResponse db r ip v))"
proof -
  have "distinct (firstOccurrences xs)" for xs :: "string list"
    by (induction xs) (auto simp: set_firstOccurrences)
  then show ?thesis
    by (simp add: keys_response)
qed

lemma response_entry:
  "(k, x) \<in> set (GwaDb_geoIpApiResponse db r ip v) \<longleftrightarrow>
     k \<in> set (db_enabledOutputs db) \<and> outputEntry (db_dbInterface db) r ip v k = Some x"
proof -
  have "(k, x) \<in> set (GwaDb_geoIpApiResponse db r ip v) \<longleftrightarrow>
        map_of (GwaDb_geoIpApiResponse db r ip v) k = Some x"
    using distinct_keys_response [of db r ip v] by (auto intro: map_of_is_SomeI map_of_SomeD)
  then show ?thesis
    by (simp add: map_of_response)
qed

lemma lookup_error:
  "error (snd (GwaDb_lookup isIP db ip)) \<noteq> None \<longleftrightarrow>
     isIP ip = 0 \<or> (isDbNeeded db \<and> get (db_dbInterface db) ip = None)"
  by (simp add: GwaDb_lookup_def Let_def split: option.splits)

lemma lookup_response:
  "geoIpApiResponse (snd (GwaDb_lookup isIP db ip)) =
     GwaDb_geoIpApiResponse db
       (if isIP ip = 0 \<or> \<not> isDbNeeded db then None else get (db_dbInterface db) ip)
       (Some ip) (Some (isIP ip))"
  by (simp add: GwaDb_lookup_def Let_def split: option.splits)

lemma isDbNeeded_iff: "isDbNeeded db \<longleftrightarrow> \<not> set (db_enabledOutputs db) \<subseteq> {''ip'', ''ip_version''}"
  by (auto simp: isDbNeeded_def ipOutputs_def filter_empty_conv)

text \<open>
  Claim C1. \<^verbatim>\<open>lookup\<close> returns a result for every IP string. Its error is set exactly when
  the IP is classified 0, or the database was needed and the adapter's \<open>get\<close> returned no
  record. Its response is always the shaped response: from the record found when the
  database was consulted and held one, from \<^verbatim>\<open>null\<close> otherwise. For an IP classified 0
  an enabled \<^verbatim>\<open>ip_version\<close> output is 0.
\<close>

theorem lookup_error_iff_invalid_or_no_record:
  "(error (snd (GwaDb_lookup isIP db ip)) \<noteq> None \<longleftrightarrow>
      isIP ip = 0 \<or> (isDbNeeded db \<and> get (db_dbInterface db) ip = None)) \<and>
   geoIpApiResponse (snd (GwaDb_lookup isIP db ip)) =
     GwaDb_geoIpApiResponse db
       (if isIP ip = 0 \<or> \<not> isDbNeeded db then None else get (db_dbInterface db) ip)
       (Some ip) (Some (isIP ip)) \<and>
   (isIP ip = 0 \<and> ''ip_version'' \<in> set (db_enabledOutputs db) \<longrightarrow>
      (''ip_version'', OutNum 0) \<in> set (geoIpApiResponse (snd (GwaDb_lookup isIP db ip))) \<and>
      (\<forall>x. (''ip_version'', x) \<in> set (geoIpApiResponse (snd (GwaDb_lookup isIP db ip)))
             \<longrightarrow> x = OutNum 0))"
proof -
  let ?res = "snd (GwaDb_lookup isIP db ip)"
  have ver: "(''ip_version'', x) \<in> set (geoIpApiResponse ?res) \<longleftrightarrow> x = OutNum 0"
    if "isIP ip = 0" "''ip_version'' \<in> set (db_enabledOutputs db)" for x
    using that by (auto simp: lookup_response response_entry outputEntry_def)
  from lookup_error [of isIP db ip] lookup_response [of isIP db ip] ver show ?thesis
    by blast
qed

text \<open>The invalid address \<^verbatim>\<open>999.1.1.1\<close> with \<^verbatim>\<open>ip_version\<close> and \<^verbatim>\<open>country\<close> enabled.\<close>

theorem lookup_error_iff_invalid_or_no_record_witness:
  "error (snd (GwaDb_lookup example_isIP (example_db [''ip_version'', ''country'']) ''999.1.1.1''))
     \<noteq> None \<and>
   (''ip_version'', OutNum 0) \<in>
     set (geoIpApiResponse
            (snd (GwaDb_lookup example_isIP (example_db [''ip_version'', ''country'']) ''999.1.1.1'')))"
proof -
  have invalid: "example_isIP ''999.1.1.1'' = 0"
    by (simp add: example_isIP_def)
  have enabled: "''ip_version'' \<in> set (db_enabledOutputs (example_db [''ip_version'', ''country'']))"
    by (simp add: example_db_def)
  from invalid enabled
    lookup_error_iff_invalid_or_no_record
      [of example_isIP "example_db [''ip_version'', ''country'']" "''999.1.1.1''"]
  show ?thesis
    by blast
qed

text \<open>
  Claim C2 says that the keys of every response appear in the order ip, ip_version,
  country, subdivision, data, however the enabled outputs were listed. The code assigns
  the keys while it walks the list of enabled outputs, so they appear in the order of that
  list: with the outputs listed as country, ip the response for \<^verbatim>\<open>8.8.8.8\<close> has country
  first.
\<close>

theorem response_keys_not_canonical:
  "geoIpApiResponse (snd (GwaDb_lookup example_isIP (example_db [''country'', ''ip'']) ''8.8.8.8'')) =
     [(''country'', OutStr ''US''), (''ip'', OutStr ''8.8.8.8'')] \<and>
   \<not> spec_inCanonicalOrder
       (map fst (geoIpApiResponse
          (snd (GwaDb_lookup example_isIP (example_db [''country'', ''ip'']) ''8.8.8.8''))))"
  by (simp add: GwaDb_lookup_def example_isIP_def example_db_def example_adapter_def
      isDbNeeded_def ipOutputs_def GwaDb_geoIpApiResponse_def addOutput_def
      spec_inCanonicalOrder_def spec_canonicalOrder_def)

text \<open>
  Claim C2, amended. The keys of the response of a lookup are the enabled outputs for
  which the lookup produces a value, in the order in which the outputs were supplied at
  construction (each name at its first occurrence). The order is thus fixed by the
  configuration, and the same for all requests that produce the same keys, but it is the
  declaration order and not a canonical one.
\<close>

theorem response_keys_follow_enabled_order:
  "map fst (geoIpApiResponse (snd (GwaDb_lookup isIP db ip))) =
     filter
       (\<lambda>k. outputEntry (db_dbInterface db)
               (if isIP ip = 0 \<or> \<not> isDbNeeded db then None else get (db_dbInterface db) ip)
               (Some ip) (Some (isIP ip)) k \<noteq> None)
       (firstOccurrences (db_enabledOutputs db))"
  by (simp only: lookup_response keys_response)

text \<open>
  Claim C3. Every entry of a shaped response has an enabled output name among the five
  known ones and a value that is not \<^verbatim>\<open>null\<close>; a \<^verbatim>\<open>country\<close> or \<^verbatim>\<open>subdivision\<close> entry holds
  the string that \<open>getStringValue\<close> returned, and a \<^verbatim>\<open>data\<close> entry holds the record, which
  is then not \<^verbatim>\<open>null\<close>. When \<open>getStringValue\<close> returns \<^verbatim>\<open>null\<close> for the subdivision the
  response has no \<^verbatim>\<open>subdivision\<close> key; so for a lookup of a valid IP whose record lacks a
  subdivision.
\<close>

theorem response_sparse:
  "(\<forall>k x. (k, x) \<in> set (GwaDb_geoIpApiResponse db r ip v) \<longrightarrow>
      k \<in> set (db_enabledOutputs db) \<and>
      k \<in> {''ip'', ''ip_version'', ''country'', ''subdivision'', ''data''} \<and>
      x \<noteq> OutNull \<and>
      (k = ''country'' \<or> k = ''subdivision'' \<longrightarrow>
         (\<exists>s. getStringValue (db_dbInterface db) r k = Some s \<and> x = OutStr s)) \<and>
      (k = ''data'' \<longrightarrow> (\<exists>d. r = Some d \<and> x = OutData d))) \<and>
   (getStringValue (db_dbInterface db) r ''subdivision'' = None \<longrightarrow>
      ''subdivision'' \<notin> fst ` set (GwaDb_geoIpApiResponse db r ip v)) \<and>
   (isIP a \<noteq> 0 \<and> get (db_dbInterface db) a = Some d \<and>
    getStringValue (db_dbInterface db) (Some d) ''subdivision'' = None \<longrightarrow>
      ''subdivision'' \<notin> fst ` set (geoIpApiResponse (snd (GwaDb_lookup isIP db a))))"
proof -
  have entries: "k \<in> set (db_enabledOutputs db) \<and>
      k \<in> {''ip'', ''ip_version'', ''country'', ''subdivision'', ''data''} \<and>
      x \<noteq> OutNull \<and>
      (k = ''country'' \<or> k = ''subdivision'' \<longrightarrow>
         (\<exists>s. getStringValue (db_dbInterface db) r k = Some s \<and> x = OutStr s)) \<and>
      (k = ''data'' \<longrightarrow> (\<exists>d. r = Some d \<and> x = OutData d))"
    if "(k, x) \<in> set (GwaDb_geoIpApiResponse db r ip v)" for k x
    using that by (auto simp: response_entry outputEntry_def split: if_splits)
  have nosub: "''subdivision'' \<notin> fst ` set (GwaDb_geoIpApiResponse db r' ip' v')"
    if "getStringValue (db_dbInterface db) r' ''subdivision'' = None \<or>
        ''subdivision'' \<notin> set (db_enabledOutputs db)" for r' ip' v'
    using that by (auto simp: response_entry outputEntry_def)
  have "''subdivision'' \<notin> fst ` set (geoIpApiResponse (snd (GwaDb_lookup isIP db a)))"
    if "isIP a \<noteq> 0" "get (db_dbInterface db) a = Some d"
       "getStringValue (db_dbInterface db) (Some d) ''subdivision'' = None"
  proof (cases "''subdivision'' \<in> set (db_enabledOutputs db)")
    case True
    then have "isDbNeeded db"
      by (auto simp: isDbNeeded_iff)
    with that show ?thesis
      by (simp add: lookup_response nosub)
  next
    case False
    then show ?thesis
      unfolding lookup_response by (intro nosub) simp
  qed
  with entries nosub show ?thesis
    by blast
qed

text \<open>A lookup of \<^verbatim>\<open>8.8.8.8\<close>, whose record has a country and no subdivision.\<close>

theorem response_sparse_witness:
  "''subdivision'' \<notin> fst ` set (geoIpApiResponse
      (snd (GwaDb_lookup example_isIP (example_db [''country'', ''subdivision'']) ''8.8.8.8''))) \<and>
   (''country'', OutStr ''US'') \<in> set (geoIpApiResponse
      (snd (GwaDb_lookup example_isIP (example_db [''country'', ''subdivision'']) ''8.8.8.8'')))"
proof -
  let ?db = "example_db [''country'', ''subdivision'']"
  have valid: "example_isIP ''8.8.8.8'' \<noteq> 0"
    by (simp add: example_isIP_def)
  have found: "get (db_dbInterface ?db) ''8.8.8.8'' = Some ''US''"
    by (simp add: example_db_def example_adapter_def)
  have nosub: "getStringValue (db_dbInterface ?db) (Some ''US'') ''subdivision'' = None"
    by (simp add: example_db_def example_adapter_def)
  have country: "(''country'', OutStr ''US'') \<in> set (geoIpApiResponse
      (snd (GwaDb_lookup example_isIP ?db ''8.8.8.8'')))"
    by (simp add: GwaDb_lookup_def example_isIP_def example_db_def example_adapter_def
      isDbNeeded_def ipOutputs_def GwaDb_geoIpApiResponse_def addOutput_def)
  from valid found nosub country
    response_sparse [of ?db None None None example_isIP "''8.8.8.8''" "''US''"]
  show ?thesis
    by blast
qed

text \<open>
  Claim C4. For an IP that is classified 4 or 6, when every enabled output is \<^verbatim>\<open>ip\<close> or
  \<^verbatim>\<open>ip_version\<close> (or none is enabled), \<^verbatim>\<open>lookup\<close> makes no call of the adapter's \<open>get\<close> and
  returns no error and the response shaped from \<^verbatim>\<open>null\<close>. With only \<^verbatim>\<open>ip_version\<close> enabled
  and \<^verbatim>\<open>8.8.8.8\<close> classified 4 the response is \<^verbatim>\<open>{ip_version: 4}\<close>.
\<close>

theorem lookup_skips_database:
  "(isIP ip \<noteq> 0 \<and> set (db_enabledOutputs db) \<subseteq> {''ip'', ''ip_version''} \<longrightarrow>
      GwaDb_lookup isIP db ip =
        ([], \<lparr>error = None,
              geoIpApiResponse = GwaDb_geoIpApiResponse db None (Some ip) (Some (isIP ip))\<rparr>)) \<and>
   (isIP ''8.8.8.8'' = 4 \<and> db_enabledOutputs db = [''ip_version''] \<longrightarrow>
      GwaDb_lookup isIP db ''8.8.8.8'' =
        ([], \<lparr>error = None, geoIpApiResponse = [(''ip_version'', OutNum 4)]\<rparr>))"
proof -
  have general: "GwaDb_lookup isIP db ip =
        ([], \<lparr>error = None,
              geoIpApiResponse = GwaDb_geoIpApiResponse db None (Some ip) (Some (isIP ip))\<rparr>)"
    if "isIP ip \<noteq> 0" "set (db_enabledOutputs db) \<subseteq> {''ip'', ''ip_version''}" for ip
    using that by (simp add: GwaDb_lookup_def Let_def isDbNeeded_iff)
  have "GwaDb_lookup isIP db ''8.8.8.8'' =
        ([], \<lparr>error = None, geoIpApiResponse = [(''ip_version'', OutNum 4)]\<rparr>)"
    if "isIP ''8.8.8.8'' = 4" "db_enabledOutputs db = [''ip_version'']"
    using that general [of "''8.8.8.8''"]
    by (simp add: GwaDb_geoIpApiResponse_def addOutput_def)
  with general show ?thesis
    by blast
qed

text \<open>The example of the claim, on the classifier and adapter above.\<close>

theorem lookup_skips_database_witness:
  "GwaDb_lookup example_isIP (example_db [''ip_version'']) ''8.8.8.8'' =
     ([], \<lparr>error = None, geoIpApiResponse = [(''ip_version'', OutNum 4)]\<rparr>)"
proof -
  have valid: "example_isIP ''8.8.8.8'' = 4"
    by (simp add: example_isIP_def)
  have enabled: "db_enabledOutputs (example_db [''ip_version'']) = [''ip_version'']"
    by (simp add: example_db_def)
  from valid enabled lookup_skips_database [of example_isIP "''8.8.8.8''" "example_db [''ip_version'']"]
  show ?thesis
    by blast
qed

section \<open>Properties of the configuration overlay\<close>

subsection \<open>The choice of the backend\<close>

lemma front_keeps_maxmind:
  "maxmind (overlay_logLevel src t) = maxmind t"
  "maxmind (overlay_port src t) = maxmind t"
  "maxmind (overlay_enabledOutputs src t) = maxmind t"
  "maxmind (overlay_prettyOutput src t) = maxmind t"
  "maxmind (overlay_getHeaders src t) = maxmind t"
  "maxmind (overlay_getPaths src t) = maxmind t"
  "maxmind (overlay_cors src t) = maxmind t"
  by (simp_all add: overlay_logLevel_def overlay_port_def overlay_enabledOutputs_def
      overlay_prettyOutput_def overlay_getHeaders_def overlay_getPaths_def overlay_cors_def
      Let_def split: jsval.splits)

lemma front_keeps_ip2location:
  "ip2location (overlay_logLevel src t) = ip2location t"
  "ip2location (overlay_port src t) = ip2location t"
  "ip2location (overlay_enabledOutputs src t) = ip2location t"
  "ip2location (overlay_prettyOutput src t) = ip2location t"
  "ip2location (overlay_getHeaders src t) = ip2location t"
  "ip2location (overlay_getPaths src t) = ip2location t"
  "ip2location (overlay_cors src t) = ip2location t"
  by (simp_all add: overlay_logLevel_def overlay_port_def overlay_enabledOutputs_def
      overlay_prettyOutput_def overlay_getHeaders_def overlay_getPaths_def overlay_cors_def
      Let_def split: jsval.splits)

lemma overlay_maxmind_supplied:
  "overlay_maxmind pf src t =
     (case suppliedPath (getProp src ''maxmind'') ''dbPath'' of
        Some p \<Rightarrow> (t\<lparr>maxmind := (maxmind t)\<lparr>mm_dbPath := expandTildePath pf p\<rparr>\<rparr>, True)
      | None \<Rightarrow> (t, False))"
  by (simp add: overlay_maxmind_def suppliedPath_def Let_def split: jsval.splits)

lemma overlay_ip2location_supplied:
  "overlay_ip2location pf src t =
     (case suppliedPath (getProp src ''ip2location'') ''dbPath'' of
        Some q \<Rightarrow>
          t\<lparr>maxmind := (maxmind t)\<lparr>mm_dbPath := ''''\<rparr>,
            ip2location := (ip2location t)
              \<lparr>i2l_dbPath := expandTildePath pf q,
               i2l_subdivisionCsvPath :=
                 (case suppliedPath (getProp src ''ip2location'') ''subdivisionCsvPath'' of
                    Some c \<Rightarrow> expandTildePath pf c
                  | None \<Rightarrow> i2l_subdivisionCsvPath (ip2location t))\<rparr>\<rparr>
      | None \<Rightarrow> t)"
  by (simp add: overlay_ip2location_def suppliedPath_def Let_def split: jsval.splits)

lemma overlayOptions_unfold:
  "instanceofObject src \<Longrightarrow>
   overlayOptions pf src =
     (let t7 = overlay_cors src (overlay_getPaths src (overlay_getHeaders src
                (overlay_prettyOutput src (overlay_enabledOutputs src
                  (overlay_port src (overlay_logLevel src (getDefaultOptions pf)))))));
          r = overlay_maxmind pf src t7
      in if snd r then fst r else overlay_ip2location pf src (fst r))"
  by (simp add: overlayOptions_def Let_def split: prod.splits)

lemma overlayOptions_backends:
  assumes "instanceofObject src"
  shows "maxmind (overlayOptions pf src) =
           (case suppliedPath (getProp src ''maxmind'') ''dbPath'' of
              Some p \<Rightarrow> \<lparr>mm_dbPath = expandTildePath pf p\<rparr>
            | None \<Rightarrow>
               (case suppliedPath (getProp src ''ip2location'') ''dbPath'' of
                  Some q \<Rightarrow> \<lparr>mm_dbPath = ''''\<rparr>
                | None \<Rightarrow> \<lparr>mm_dbPath = defaultMaxMindDbPath pf\<rparr>))"
    and "ip2location (overlayOptions pf src) =
           (case suppliedPath (getProp src ''maxmind'') ''dbPath'' of
              Some p \<Rightarrow> \<lparr>i2l_dbPath = '''', i2l_subdivisionCsvPath = ''''\<rparr>
            | None \<Rightarrow>
               (case suppliedPath (getProp src ''ip2location'') ''dbPath'' of
                  Some q \<Rightarrow>
                    \<lparr>i2l_dbPath = expandTildePath pf q,
                     i2l_subdivisionCsvPath =
                       (case suppliedPath (getProp src ''ip2location'') ''subdivisionCsvPath'' of
                          Some c \<Rightarrow> expandTildePath pf c
                        | None \<Rightarrow> '''')\<rparr>
                | None \<Rightarrow> \<lparr>i2l_dbPath = '''', i2l_subdivisionCsvPath = ''''\<rparr>))"
  using assms
  by (simp_all add: overlayOptions_unfold Let_def overlay_maxmind_supplied
      overlay_ip2location_supplied front_keeps_maxmind front_keeps_ip2location
      getDefaultOptions_def split: option.splits)

lemma overlayOptions_not_object:
  "\<not> instanceofObject src \<Longrightarrow> overlayOptions pf src = getDefaultOptions pf"
  by (simp add: overlayOptions_def)

lemma overlayOptions_ignores_ip2location:
  assumes "instanceofObject src" "instanceofObject src'"
    and "suppliedPath (getProp src ''maxmind'') ''dbPath'' = Some p"
    and "\<forall>k. k \<noteq> ''ip2location'' \<longrightarrow> getProp src' k = getProp src k"
  shows "overlayOptions pf src' = overlayOptions pf src"
proof -
  have same: "getProp src' ''logLevel'' = getProp src ''logLevel''"
    "getProp src' ''port'' = getProp src ''port''"
    "getProp src' ''enabledOutputs'' = getProp src ''enabledOutputs''"
    "getProp src' ''prettyOutput'' = getProp src ''prettyOutput''"
    "getProp src' ''getHeaders'' = getProp src ''getHeaders''"
    "getProp src' ''getPaths'' = getProp src ''getPaths''"
    "getProp src' ''cors'' = getProp src ''cors''"
    "getProp src' ''maxmind'' = getProp src ''maxmind''"
    using assms(4) by simp_all
  have front: "overlay_logLevel src' = overlay_logLevel src"
    "overlay_port src' = overlay_port src"
    "overlay_enabledOutputs src' = overlay_enabledOutputs src"
    "overlay_prettyOutput src' = overlay_prettyOutput src"
    "overlay_getHeaders src' = overlay_getHeaders src"
    "overlay_getPaths src' = overlay_getPaths src"
    "overlay_cors src' = overlay_cors src"
    by (simp_all add: fun_eq_iff same overlay_logLevel_def overlay_port_def
        overlay_enabledOutputs_def overlay_prettyOutput_def overlay_getHeaders_def
        overlay_getPaths_def overlay_cors_def)
  show ?thesis
    using assms(1-3)
    by (simp add: overlayOptions_unfold front overlay_maxmind_supplied same Let_def)
qed

lemma trim_Nil: "trim [] = []"
  by (simp add: trim_def)

text \<open>
  Claim C5. In the configuration that \<^verbatim>\<open>overlayOptions\<close> returns at most one of the two
  database paths is non-blank (indeed non-empty). When the source is an object whose
  \<^verbatim>\<open>maxmind.dbPath\<close> is a non-blank string, the MaxMind path is its expansion, the
  IP2Location options are the defaults, and the result is the same for every source that
  differs only in \<^verbatim>\<open>ip2location\<close>. When no MaxMind path is supplied, a non-blank
  \<^verbatim>\<open>ip2location.dbPath\<close> sets the IP2Location path and empties the MaxMind path; the
  IP2Location path is set in no other case. On the result \<^verbatim>\<open>getDbOptions\<close> selects MAXMIND
  whenever the MaxMind path is not empty, \<^verbatim>\<open>getDbInterface\<close> then constructs the MaxMind
  adapter, and the options of both backends are never handed over together.
\<close>

theorem overlay_selects_one_backend:
  "\<not> (trim (mm_dbPath (maxmind (overlayOptions pf src))) \<noteq> '''' \<and>
      trim (i2l_dbPath (ip2location (overlayOptions pf src))) \<noteq> '''') \<and>
   \<not> (mm_dbPath (maxmind (overlayOptions pf src)) \<noteq> '''' \<and>
      i2l_dbPath (ip2location (overlayOptions pf src)) \<noteq> '''') \<and>
   (instanceofObject src \<and> suppliedPath (getProp src ''maxmind'') ''dbPath'' = Some p \<longrightarrow>
      maxmind (overlayOptions pf src) = \<lparr>mm_dbPath = expandTildePath pf p\<rparr> \<and>
      ip2location (overlayOptions pf src) = \<lparr>i2l_dbPath = '''', i2l_subdivisionCsvPath = ''''\<rparr> \<and>
      (\<forall>src'. instanceofObject src' \<and>
              (\<forall>k. k \<noteq> ''ip2location'' \<longrightarrow> getProp src' k = getProp src k) \<longrightarrow>
              overlayOptions pf src' = overlayOptions pf src)) \<and>
   (instanceofObject src \<and> suppliedPath (getProp src ''maxmind'') ''dbPath'' = None \<and>
    suppliedPath (getProp src ''ip2location'') ''dbPath'' = Some q \<longrightarrow>
      mm_dbPath (maxmind (overlayOptions pf src)) = '''' \<and>
      i2l_dbPath (ip2location (overlayOptions pf src)) = expandTildePath pf q) \<and>
   (i2l_dbPath (ip2location (overlayOptions pf src)) \<noteq> '''' \<longrightarrow>
      suppliedPath (getProp src ''maxmind'') ''dbPath'' = None) \<and>
   (mm_dbPath (maxmind (overlayOptions pf src)) \<noteq> '''' \<longrightarrow>
      dbProvider (getDbOptions (overlayOptions pf src)) = MAXMIND \<and>
      getDbInterface (getDbOptions (overlayOptions pf src)) =
        Inr (GwaMaxMind (maxmind (overlayOptions pf src)))) \<and>
   \<not> (maxMindOptions (getDbOptions (overlayOptions pf src)) \<noteq> None \<and>
      ip2LocationOptions (getDbOptions (overlayOptions pf src)) \<noteq> None)"
proof -
  let ?t = "overlayOptions pf src"
  have one: "mm_dbPath (maxmind ?t) = '''' \<or> i2l_dbPath (ip2location ?t) = ''''"
  proof (cases "instanceofObject src")
    case True
    then show ?thesis
      by (simp add: overlayOptions_backends split: option.splits)
  next
    case False
    then show ?thesis
      by (simp add: overlayOptions_not_object getDefaultOptions_def)
  qed
  then have blank: "\<not> (trim (mm_dbPath (maxmind ?t)) \<noteq> '''' \<and>
      trim (i2l_dbPath (ip2location ?t)) \<noteq> '''')"
    by (auto simp: trim_Nil)
  have mm: "maxmind ?t = \<lparr>mm_dbPath = expandTildePath pf p\<rparr> \<and>
      ip2location ?t = \<lparr>i2l_dbPath = '''', i2l_subdivisionCsvPath = ''''\<rparr> \<and>
      (\<forall>src'. instanceofObject src' \<and>
              (\<forall>k. k \<noteq> ''ip2location'' \<longrightarrow> getProp src' k = getProp src k) \<longrightarrow>
              overlayOptions pf src' = ?t)"
    if "instanceofObject src" "suppliedPath (getProp src ''maxmind'') ''dbPath'' = Some p"
  proof -
    have "overlayOptions pf src' = ?t"
      if "instanceofObject src'" "\<forall>k. k \<noteq> ''ip2location'' \<longrightarrow> getProp src' k = getProp src k"
      for src'
      using overlayOptions_ignores_ip2location [OF \<open>instanceofObject src\<close> that(1) _ that(2)]
        \<open>suppliedPath (getProp src ''maxmind'') ''dbPath'' = Some p\<close>
      by blast
    moreover have "maxmind ?t = \<lparr>mm_dbPath = expandTildePath pf p\<rparr>"
      "ip2location ?t = \<lparr>i2l_dbPath = '''', i2l_subdivisionCsvPath = ''''\<rparr>"
      using that by (simp_all add: overlayOptions_backends)
    ultimately show ?thesis
      by blast
  qed
  have i2l: "mm_dbPath (maxmind ?t) = '''' \<and>
      i2l_dbPath (ip2location ?t) = expandTildePath pf q"
    if "instanceofObject src" "suppliedPath (getProp src ''maxmind'') ''dbPath'' = None"
       "suppliedPath (getProp src ''ip2location'') ''dbPath'' = Some q"
    using that by (simp add: overlayOptions_backends)
  have only: "suppliedPath (getProp src ''maxmind'') ''dbPath'' = None"
    if "i2l_dbPath (ip2location ?t) \<noteq> ''''"
  proof (cases "instanceofObject src")
    case True
    with that show ?thesis
      by (simp add: overlayOptions_backends split: option.splits)
  next
    case False
    with that show ?thesis
      by (simp add: overlayOptions_not_object getDefaultOptions_def)
  qed
  have sel: "dbProvider (getDbOptions ?t) = MAXMIND \<and>
      getDbInterface (getDbOptions ?t) = Inr (GwaMaxMind (maxmind ?t))"
    if "mm_dbPath (maxmind ?t) \<noteq> ''''"
    using that by (simp add: getDbOptions_def getDbInterface_def Let_def)
  have both: "\<not> (maxMindOptions (getDbOptions ?t) \<noteq> None \<and>
      ip2LocationOptions (getDbOptions ?t) \<noteq> None)"
    by (simp add: getDbOptions_def Let_def)
  from one blank mm i2l only sel both show ?thesis
    by blast
qed

lemma example_trim: "trim '' ~/geo.mmdb '' = ''~/geo.mmdb''"
  by (simp add: trim_def isWhiteSpace_def)

lemma example_suppliedPath: "suppliedPath (getProp example_bothBackends ''maxmind'') ''dbPath'' = Some ''~/geo.mmdb''"
  by (simp add: example_bothBackends_def suppliedPath_def getProp_def example_trim)

lemma example_expandTildePath: "expandTildePath example_platform ''~/geo.mmdb'' = ''/home/geo/geo.mmdb''"
  by (simp add: expandTildePath_def example_platform_def)

text \<open>A source with both a MaxMind and an IP2Location path: MaxMind is selected.\<close>

theorem overlay_selects_one_backend_witness:
  "maxmind (overlayOptions example_platform example_bothBackends) =
     \<lparr>mm_dbPath = ''/home/geo/geo.mmdb''\<rparr> \<and>
   ip2location (overlayOptions example_platform example_bothBackends) =
     \<lparr>i2l_dbPath = '''', i2l_subdivisionCsvPath = ''''\<rparr> \<and>
   dbProvider (getDbOptions (overlayOptions example_platform example_bothBackends)) = MAXMIND"
proof -
  have obj: "instanceofObject example_bothBackends"
    by (simp add: example_bothBackends_def)
  note fact = overlay_selects_one_backend [of example_platform example_bothBackends "''~/geo.mmdb''"]
  from fact obj example_suppliedPath have
    mm: "maxmind (overlayOptions example_platform example_bothBackends) =
      \<lparr>mm_dbPath = expandTildePath example_platform ''~/geo.mmdb''\<rparr>"
    and i2l: "ip2location (overlayOptions example_platform example_bothBackends) =
      \<lparr>i2l_dbPath = '''', i2l_subdivisionCsvPath = ''''\<rparr>"
    by blast+
  from mm have ne: "mm_dbPath (maxmind (overlayOptions example_platform example_bothBackends)) \<noteq> ''''"
    by (simp add: example_expandTildePath)
  with fact have "dbProvider (getDbOptions (overlayOptions example_platform example_bothBackends)) = MAXMIND"
    by blast
  with mm i2l show ?thesis
    by (simp add: example_expandTildePath)
qed

subsection \<open>The header map\<close>

lemma toLowerCase_Nil: "toLowerCase k = [] \<longleftrightarrow> k = []"
  by (simp add: toLowerCase_def)

lemma toLowerCase_proto: "toLowerCase ''__proto__'' = ''__proto__''"
  by (simp add: toLowerCase_def lowerChar_def)

lemma setProp_absent: "k \<notin> fst ` set acc \<Longrightarrow> setProp k v acc = acc @ [(k, v)]"
  by (induction acc) auto

lemma keys_setProp_present: "k \<in> fst ` set acc \<Longrightarrow> map fst (setProp k v acc) = map fst acc"
  by (simp add: keys_setProp)

lemma filter_setProp_present:
  "distinct (map (\<lambda>p. g (fst p)) acc) \<Longrightarrow> k \<in> fst ` set acc \<Longrightarrow>
   filter (\<lambda>p. g (fst p) = n) (setProp k v acc) =
     (if g k = n then [(k, v)] else filter (\<lambda>p. g (fst p) = n) acc)"
proof (induction acc)
  case Nil
  then show ?case by simp
next
  case (Cons p ps)
  show ?case
  proof (cases "fst p = k")
    case True
    from Cons.prems(1) have "g (fst q) \<noteq> g k" if "q \<in> set ps" for q
      using that True by (auto simp: image_iff)
    then have "filter (\<lambda>p. g (fst p) = g k) ps = []"
      by (auto simp: filter_empty_conv)
    with True show ?thesis
      by auto
  next
    case False
    with Cons.prems have k: "k \<in> fst ` set ps" and d: "distinct (map (\<lambda>p. g (fst p)) ps)"
      by auto
    from Cons.prems(1) k have "g (fst p) \<noteq> g k"
      by (auto simp: image_iff)
    with False Cons.IH [OF d k] show ?thesis
      by auto
  qed
qed

lemma delete_duplicate:
  assumes "distinct (map (\<lambda>p. toLowerCase (fst p)) acc)" "d \<in> fst ` set acc"
    "toLowerCase d = toLowerCase k"
  shows "deleteProp d acc = filter (\<lambda>p. toLowerCase (fst p) \<noteq> toLowerCase k) acc"
proof -
  from assms(1) have inj: "inj_on (\<lambda>p. toLowerCase (fst p)) (set acc)"
    by (simp add: distinct_map)
  from assms(2) obtain q where q: "q \<in> set acc" "fst q = d"
    by auto
  have "fst p \<noteq> d \<longleftrightarrow> toLowerCase (fst p) \<noteq> toLowerCase k" if "p \<in> set acc" for p
    using inj_onD [OF inj _ that q(1)] q(2) assms(3) by auto
  then show ?thesis
    unfolding deleteProp_def by (intro filter_cong) auto
qed

text \<open>
  What staging does to the own properties: the entries of the key's name are removed and
  the entry is appended; or the key is the empty string, already present, and is
  overwritten; or the key is \<^verbatim>\<open>__proto__\<close>, the entries of its name are removed and
  nothing is written.
\<close>

lemma stageHeader_cases:
  assumes "distinct (map (\<lambda>p. toLowerCase (fst p)) acc)"
  shows "fst (stageHeader k v (acc, pn)) =
           filter (\<lambda>p. toLowerCase (fst p) \<noteq> toLowerCase k) acc @ [(k, v)] \<or>
         (k \<in> fst ` set acc \<and> fst (stageHeader k v (acc, pn)) = setProp k v acc) \<or>
         (k = ''__proto__'' \<and>
          fst (stageHeader k v (acc, pn)) =
            filter (\<lambda>p. toLowerCase (fst p) \<noteq> toLowerCase k) acc)"
proof -
  let ?rest = "filter (\<lambda>p. toLowerCase (fst p) \<noteq> toLowerCase k) acc"
  have absent: "k \<notin> fst ` set ?rest"
    by auto
  have assign: "fst (assignHeader k v (?rest, pn)) = ?rest @ [(k, v)] \<or>
      (k = ''__proto__'' \<and> fst (assignHeader k v (?rest, pn)) = ?rest)"
    using absent by (simp add: assignHeader_def setProp_absent)
  show ?thesis
  proof (cases "find (\<lambda>h. toLowerCase h = toLowerCase k) (objectKeys acc)")
    case None
    then have "toLowerCase (fst p) \<noteq> toLowerCase k" if "p \<in> set acc" for p
      using that by (auto simp: find_None_iff objectKeys_def)
    then have "?rest = acc"
      by (auto intro: filter_True)
    with None assign show ?thesis
      by (auto simp: stageHeader_def)
  next
    case (Some d)
    then have d: "d \<in> fst ` set acc" "toLowerCase d = toLowerCase k"
      by (auto simp: find_Some_iff objectKeys_def)
    show ?thesis
    proof (cases "d = []")
      case True
      with d have k: "k = []"
        using toLowerCase_Nil [of k] by (simp add: toLowerCase_def)
      with True d Some show ?thesis
        by (simp add: stageHeader_def assignHeader_def)
    next
      case False
      have "deleteProp d acc = ?rest"
        using delete_duplicate [OF assms d] .
      with False Some assign show ?thesis
        by (auto simp: stageHeader_def)
    qed
  qed
qed

lemma stageHeader_filter:
  assumes "distinct (map (\<lambda>p. toLowerCase (fst p)) acc)" and "n \<noteq> ''__proto__''"
  shows "filter (\<lambda>p. toLowerCase (fst p) = n) (fst (stageHeader k v (acc, pn))) =
           (if toLowerCase k = n then [(k, v)] else filter (\<lambda>p. toLowerCase (fst p) = n) acc) \<and>
         distinct (map (\<lambda>p. toLowerCase (fst p)) (fst (stageHeader k v (acc, pn))))"
proof -
  let ?rest = "filter (\<lambda>p. toLowerCase (fst p) \<noteq> toLowerCase k) acc"
  have rest: "filter (\<lambda>p. toLowerCase (fst p) = n) ?rest =
          (if toLowerCase k = n then [] else filter (\<lambda>p. toLowerCase (fst p) = n) acc)"
    by (auto simp: filter_empty_conv intro: filter_cong)
  have drest: "distinct (map (\<lambda>p. toLowerCase (fst p)) ?rest)"
    using assms(1) by (simp add: distinct_map_filter)
  from stageHeader_cases [OF assms(1), of k v pn] consider
    (append) "fst (stageHeader k v (acc, pn)) = ?rest @ [(k, v)]"
    | (overwrite) "k \<in> fst ` set acc" "fst (stageHeader k v (acc, pn)) = setProp k v acc"
    | (setter) "k = ''__proto__''" "fst (stageHeader k v (acc, pn)) = ?rest"
    by blast
  then show ?thesis
  proof cases
    case append
    have "distinct (map (\<lambda>p. toLowerCase (fst p)) (?rest @ [(k, v)]))"
      using drest by auto
    with rest show ?thesis
      by (simp add: append)
  next
    case overwrite
    have "map toLowerCase (map fst (setProp k v acc)) = map toLowerCase (map fst acc)"
      using keys_setProp_present [OF overwrite(1), of v] by (rule arg_cong)
    then have "map (\<lambda>p. toLowerCase (fst p)) (setProp k v acc) =
        map (\<lambda>p. toLowerCase (fst p)) acc"
      by (simp add: comp_def)
    with assms(1) filter_setProp_present [OF assms(1) overwrite(1), of n v] show ?thesis
      by (simp add: overwrite(2))
  next
    case setter
    with assms(2) have "toLowerCase k \<noteq> n"
      by (simp add: toLowerCase_proto)
    with rest drest show ?thesis
      by (simp add: setter(2))
  qed
qed

lemma headerStep_accepted:
  "headerStep hdrs k st =
     (if acceptedHeader hdrs k then stageHeader k (headerValueOf hdrs k) st else st)"
  by (simp add: headerStep_def acceptedHeader_def headerValueOf_def split: jsval.splits)

lemma fold_headerStep:
  "distinct (map (\<lambda>p. toLowerCase (fst p)) acc) \<Longrightarrow> n \<noteq> ''__proto__'' \<Longrightarrow>
   filter (\<lambda>p. toLowerCase (fst p) = n) (fst (fold (headerStep hdrs) ks (acc, pn))) =
     (case filter (\<lambda>k. acceptedHeader hdrs k \<and> toLowerCase k = n) ks of
        [] \<Rightarrow> filter (\<lambda>p. toLowerCase (fst p) = n) acc
      | x # xs \<Rightarrow> [(last (x # xs), headerValueOf hdrs (last (x # xs)))]) \<and>
   distinct (map (\<lambda>p. toLowerCase (fst p)) (fst (fold (headerStep hdrs) ks (acc, pn))))"
proof (induction ks arbitrary: acc pn)
  case Nil
  then show ?case by simp
next
  case (Cons k ks)
  show ?case
  proof (cases "acceptedHeader hdrs k")
    case False
    with Cons show ?thesis
      by (simp add: headerStep_accepted)
  next
    case True
    obtain acc' pn' where st': "stageHeader k (headerValueOf hdrs k) (acc, pn) = (acc', pn')"
      by (cases "stageHeader k (headerValueOf hdrs k) (acc, pn)")
    from stageHeader_filter [OF Cons.prems, of k "headerValueOf hdrs k" pn]
    have st: "filter (\<lambda>p. toLowerCase (fst p) = n) acc' =
           (if toLowerCase k = n then [(k, headerValueOf hdrs k)]
            else filter (\<lambda>p. toLowerCase (fst p) = n) acc)"
      and di: "distinct (map (\<lambda>p. toLowerCase (fst p)) acc')"
      by (simp_all add: st')
    from Cons.IH [OF di Cons.prems(2), of pn'] True st show ?thesis
      by (simp add: headerStep_accepted st' split: list.splits)
  qed
qed

lemma later_keep_getHeaders:
  "getHeaders (overlay_getPaths src t) = getHeaders t"
  "getHeaders (overlay_cors src t) = getHeaders t"
  "getHeaders (fst (overlay_maxmind pf src t)) = getHeaders t"
  "getHeaders (overlay_ip2location pf src t) = getHeaders t"
  by (simp_all add: overlay_getPaths_def overlay_cors_def overlay_maxmind_supplied
      overlay_ip2location_supplied Let_def split: jsval.splits option.splits)

lemma overlayOptions_getHeaders:
  "instanceofObject src \<Longrightarrow> instanceofObject (getProp src ''getHeaders'') \<Longrightarrow>
   getHeaders (overlayOptions pf src) = overlayHeaders (getProp src ''getHeaders'')"
  by (simp add: overlayOptions_unfold Let_def later_keep_getHeaders overlay_getHeaders_def)

text \<open>
  For every name other than \<^verbatim>\<open>__proto__\<close> the header map holds what the comment in the
  code promises: the last accepted source entry of that name, in its own spelling, and
  nothing else of that name.
\<close>

lemma overlayHeaders_other_names:
  "n \<noteq> ''__proto__'' \<Longrightarrow>
   filter (\<lambda>p. toLowerCase (fst p) = n) (overlayHeaders hdrs) =
     (case filter (\<lambda>k. acceptedHeader hdrs k \<and> toLowerCase k = n) (keysOf hdrs) of
        [] \<Rightarrow> []
      | x # xs \<Rightarrow> [(last (x # xs), headerValueOf hdrs (last (x # xs)))])"
  using fold_headerStep [of "[]" n hdrs "keysOf hdrs" False]
  by (simp add: overlayHeaders_def split: list.splits)

lemma overlayHeaders_example:
  "filter (\<lambda>p. toLowerCase (fst p) = ''x-foo'') (overlayHeaders example_headers) =
     [(''x-foo'', None)]"
proof -
  have lc: "toLowerCase ''X-Foo'' = ''x-foo''" "toLowerCase ''x-foo'' = ''x-foo''"
    "toLowerCase ''Skip'' = ''skip''"
    by (simp_all add: toLowerCase_def lowerChar_def)
  have keys: "keysOf example_headers = [''X-Foo'', ''Skip'', ''x-foo'']"
    by (simp add: example_headers_def keysOf_def objectKeys_def)
  have acc: "acceptedHeader example_headers ''X-Foo''" "acceptedHeader example_headers ''x-foo''"
    "\<not> acceptedHeader example_headers ''Skip''"
    by (simp_all add: example_headers_def acceptedHeader_def getProp_def)
  have val: "headerValueOf example_headers ''x-foo'' = None"
    by (simp add: example_headers_def headerValueOf_def getProp_def)
  have "''x-foo'' \<noteq> ''__proto__''"
    by simp
  from overlayHeaders_other_names [OF this, of example_headers]
  show ?thesis
    by (simp add: keys acc lc val)
qed

lemma proto_lower: "toLowerCase ''__PROTO__'' = ''__proto__''"
  by (simp add: toLowerCase_def lowerChar_def)

text \<open>
  Claim C7 says that two accepted source keys that differ only in letter case leave
  exactly one entry in the header map, that of the key applied last, as the comment in
  the code promises. For the name \<^verbatim>\<open>__proto__\<close> the code does not do so. Both keys of
  \<^verbatim>\<open>{"__PROTO__": "b", "__proto__": "a"}\<close> are accepted and differ only in case; the
  second step finds the staged \<^verbatim>\<open>__PROTO__\<close>, deletes it, and its assignment to
  \<^verbatim>\<open>__proto__\<close> runs the inherited setter, which stores nothing: the header map ends with
  no entry at all, also as the \<^verbatim>\<open>getHeaders\<close> of the overlaid configuration.
\<close>

theorem overlayHeaders_drops_proto:
  "acceptedHeader example_protoHeaders ''__PROTO__'' \<and>
   acceptedHeader example_protoHeaders ''__proto__'' \<and>
   toLowerCase ''__PROTO__'' = toLowerCase ''__proto__'' \<and>
   overlayHeaders example_protoHeaders = [] \<and>
   getHeaders (overlayOptions pf (JObj [(''getHeaders'', example_protoHeaders)])) = []"
proof -
  have acc: "acceptedHeader example_protoHeaders ''__PROTO__''"
    "acceptedHeader example_protoHeaders ''__proto__''"
    by (simp_all add: example_protoHeaders_def acceptedHeader_def getProp_def)
  have lc: "toLowerCase ''__PROTO__'' = toLowerCase ''__proto__''"
    by (simp add: proto_lower toLowerCase_proto)
  have first: "headerStep example_protoHeaders ''__PROTO__'' ([], False) =
      ([(''__PROTO__'', Some ''b'')], False)"
    by (simp add: headerStep_def stageHeader_def assignHeader_def example_protoHeaders_def
        getProp_def objectKeys_def)
  have second: "headerStep example_protoHeaders ''__proto__'' ([(''__PROTO__'', Some ''b'')], False) =
      ([], False)"
    by (simp add: headerStep_def stageHeader_def assignHeader_def example_protoHeaders_def
        getProp_def objectKeys_def deleteProp_def proto_lower toLowerCase_proto)
  have empty: "overlayHeaders example_protoHeaders = []"
    by (simp add: overlayHeaders_def keysOf_def objectKeys_def first second
        example_protoHeaders_def [THEN arg_cong, of ownProps])
  have "getHeaders (overlayOptions pf (JObj [(''getHeaders'', example_protoHeaders)])) =
      overlayHeaders example_protoHeaders"
    using overlayOptions_getHeaders [of "JObj [(''getHeaders'', example_protoHeaders)]" pf]
    by (simp add: getProp_def example_protoHeaders_def)
  with acc lc empty show ?thesis
    by simp
qed

subsection \<open>The numeric fields\<close>

lemmas overlay_js_defs =
  overlayOptions_js_def overlay_logLevel_js_def overlay_port_js_def
  overlay_enabledOutputs_js_def overlay_prettyOutput_def overlay_getHeaders_def
  overlay_getPaths_def overlay_cors_js_def overlay_maxmind_js_def overlay_ip2location_js_def

lemmas overlay_ts_defs =
  overlayOptions_def overlay_logLevel_def overlay_port_def
  overlay_enabledOutputs_def overlay_prettyOutput_def overlay_getHeaders_def
  overlay_getPaths_def overlay_cors_def overlay_maxmind_def overlay_ip2location_def

lemma later_keep_logLevel:
  "logLevel (overlay_port src t) = logLevel t"
  "logLevel (overlay_enabledOutputs src t) = logLevel t"
  "logLevel (overlay_prettyOutput src t) = logLevel t"
  "logLevel (overlay_getHeaders src t) = logLevel t"
  "logLevel (overlay_getPaths src t) = logLevel t"
  "logLevel (overlay_cors src t) = logLevel t"
  "logLevel (fst (overlay_maxmind pf src t)) = logLevel t"
  "logLevel (overlay_ip2location pf src t) = logLevel t"
  by (simp_all add: overlay_port_def overlay_enabledOutputs_def overlay_prettyOutput_def
      overlay_getHeaders_def overlay_getPaths_def overlay_cors_def overlay_maxmind_supplied
      overlay_ip2location_supplied Let_def split: jsval.splits option.splits)

lemma later_keep_port:
  "port (overlay_enabledOutputs src t) = port t"
  "port (overlay_prettyOutput src t) = port t"
  "port (overlay_getHeaders src t) = port t"
  "port (overlay_getPaths src t) = port t"
  "port (overlay_cors src t) = port t"
  "port (fst (overlay_maxmind pf src t)) = port t"
  "port (overlay_ip2location pf src t) = port t"
  by (simp_all add: overlay_enabledOutputs_def overlay_prettyOutput_def
      overlay_getHeaders_def overlay_getPaths_def overlay_cors_def overlay_maxmind_supplied
      overlay_ip2location_supplied Let_def split: jsval.splits option.splits)

lemma overlayOptions_numeric_fields:
  assumes "instanceofObject src"
  shows "logLevel (overlayOptions pf src) =
           (case getProp src ''logLevel'' of
              JNum n \<Rightarrow> if num_le (Fin 0) n \<and> num_le n (Fin 4) then mathFloor n else Fin 3
            | _ \<Rightarrow> Fin 3)"
    and "port (overlayOptions pf src) =
           (case getProp src ''port'' of
              JNum n \<Rightarrow> if num_le (Fin 0) n \<and> num_le n (Fin 65535) then mathFloor n else Fin 3000
            | _ \<Rightarrow> Fin 3000)"
  using assms
  by (simp_all add: overlayOptions_unfold Let_def later_keep_logLevel later_keep_port
      overlay_logLevel_def overlay_port_def getDefaultOptions_def LogLevel_INFO_def
      LogLevel_OFF_def LogLevel_DEBUG_def split: jsval.splits)

lemma accepted_number_is_floored:
  "num_le (Fin 0) n \<Longrightarrow> num_le n (Fin b) \<Longrightarrow>
   \<exists>r. n = Fin r \<and> 0 \<le> r \<and> r \<le> b \<and> mathFloor n = Fin (of_int \<lfloor>r\<rfloor>)"
  by (cases n) simp_all

text \<open>
  Claim C6 says that \<^verbatim>\<open>overlayOptions\<close> takes the source \<^verbatim>\<open>logLevel\<close> only when it is a
  number from 0 to 4 and the source \<^verbatim>\<open>port\<close> only when it is a number from 0 to 65535.
  The TypeScript implementation does so (\<open>overlayOptions_numeric_fields\<close> above). The
  JavaScript implementation tests \<^verbatim>\<open>src.port > 0\<close> only and compares the \<^verbatim>\<open>logLevel\<close>
  after coercion: it takes the port 70000, and the \<^verbatim>\<open>logLevel\<close> \<^verbatim>\<open>null\<close> as level 0,
  where the TypeScript implementation keeps the defaults 3000 and 3.
\<close>

theorem overlayOptions_js_numeric_unchecked:
  "port (overlayOptions_js pf coerce example_port70000) = Fin 70000 \<and>
   port (overlayOptions pf example_port70000) = Fin 3000 \<and>
   logLevel (overlayOptions_js pf coerce example_logLevelNull) = Fin 0 \<and>
   logLevel (overlayOptions pf example_logLevelNull) = Fin 3"
  by (simp add: overlay_js_defs overlay_ts_defs example_port70000_def example_logLevelNull_def
      getProp_def Let_def getDefaultOptions_def LogLevel_INFO_def LogLevel_OFF_def
      LogLevel_DEBUG_def)

subsection \<open>The two implementations compared\<close>

lemma toggleOr_idem: "toggleOr v (toggleOr v d) = toggleOr v d"
  by (simp add: toggleOr_def split: jsval.splits)

lemma outputStep_fields:
  "eo_country (outputStep eo k t) =
     (if k = ''country'' then toggleOr (getProp eo k) (eo_country t) else eo_country t)"
  "eo_subdivision (outputStep eo k t) =
     (if k = ''subdivision'' then toggleOr (getProp eo k) (eo_subdivision t) else eo_subdivision t)"
  "eo_ip (outputStep eo k t) =
     (if k = ''ip'' then toggleOr (getProp eo k) (eo_ip t) else eo_ip t)"
  "eo_ip_version (outputStep eo k t) =
     (if k = ''ip_version'' then toggleOr (getProp eo k) (eo_ip_version t) else eo_ip_version t)"
  "eo_data (outputStep eo k t) =
     (if k = ''data'' then toggleOr (getProp eo k) (eo_data t) else eo_data t)"
  "EnabledOutputs.more (outputStep eo k t) = EnabledOutputs.more t"
  by (simp_all add: outputStep_def setOutput_def toggleOr_def split: jsval.splits)

lemma fold_outputStep_fields:
  "eo_country (fold (outputStep eo) ks t) =
     (if ''country'' \<in> set ks then toggleOr (getProp eo ''country'') (eo_country t)
      else eo_country t)"
  "eo_subdivision (fold (outputStep eo) ks t) =
     (if ''subdivision'' \<in> set ks then toggleOr (getProp eo ''subdivision'') (eo_subdivision t)
      else eo_subdivision t)"
  "eo_ip (fold (outputStep eo) ks t) =
     (if ''ip'' \<in> set ks then toggleOr (getProp eo ''ip'') (eo_ip t) else eo_ip t)"
  "eo_ip_version (fold (outputStep eo) ks t) =
     (if ''ip_version'' \<in> set ks then toggleOr (getProp eo ''ip_version'') (eo_ip_version t)
      else eo_ip_version t)"
  "eo_data (fold (outputStep eo) ks t) =
     (if ''data'' \<in> set ks then toggleOr (getProp eo ''data'') (eo_data t) else eo_data t)"
  "EnabledOutputs.more (fold (outputStep eo) ks t) = EnabledOutputs.more t"
  by (induction ks arbitrary: t) (simp_all add: outputStep_fields toggleOr_idem)

lemma getProp_absent: "k \<notin> set (keysOf v) \<Longrightarrow> getProp v k = JUndefined"
  by (simp add: keysOf_def objectKeys_def getProp_def map_of_eq_None_iff [THEN iffD2])

lemma toggleOr_absent: "k \<notin> set (keysOf v) \<Longrightarrow> toggleOr (getProp v k) d = d"
  by (simp add: getProp_absent toggleOr_def)

lemma outputs_js_eq:
  "fold (outputStep eo) (filter (\<lambda>output. output \<in> set knownOutputs) (keysOf eo)) t =
   fold (outputStep eo) knownOutputs t"
proof -
  have known: "''country'' \<in> set knownOutputs" "''subdivision'' \<in> set knownOutputs"
    "''ip'' \<in> set knownOutputs" "''ip_version'' \<in> set knownOutputs"
    "''data'' \<in> set knownOutputs"
    by (simp_all add: knownOutputs_def)
  show ?thesis
    by (rule EnabledOutputs.equality)
       (simp_all add: fold_outputStep_fields toggleOr_absent known)
qed

lemma overlay_enabledOutputs_js_eq: "overlay_enabledOutputs_js src t = overlay_enabledOutputs src t"
  by (simp add: overlay_enabledOutputs_js_def overlay_enabledOutputs_def outputs_js_eq Let_def)

lemma overlay_cors_js_eq: "overlay_cors_js src t = overlay_cors src t"
  by (cases "getProp (getProp src ''cors'') ''originRegEx''")
     (simp_all add: overlay_cors_js_def overlay_cors_def Let_def)

lemma overlay_logLevel_js_eq:
  "numberOrAbsent (getProp src ''logLevel'') \<Longrightarrow>
   overlay_logLevel_js coerce src t = overlay_logLevel src t"
  by (simp add: overlay_logLevel_js_def overlay_logLevel_def numberOrAbsent_def Let_def
      LogLevel_OFF_def LogLevel_DEBUG_def split: jsval.splits)

lemma port_tests_agree:
  "n \<noteq> Fin 0 \<Longrightarrow> \<not> num_lt (Fin 65535) n \<Longrightarrow>
   num_lt (Fin 0) n = (num_le (Fin 0) n \<and> num_le n (Fin 65535))"
  by (cases n) auto

lemma overlay_port_js_eq:
  "portInCommonRange (getProp src ''port'') \<Longrightarrow>
   overlay_port_js coerce src t = overlay_port src t"
  by (cases "getProp src ''port''")
     (auto simp: overlay_port_js_def overlay_port_def portInCommonRange_def Let_def
        port_tests_agree)

lemma overlay_maxmind_js_eq:
  "trimmedIfString (getProp (getProp src ''maxmind'') ''dbPath'') \<Longrightarrow>
   overlay_maxmind_js pf src t = overlay_maxmind pf src t"
  by (cases "getProp (getProp src ''maxmind'') ''dbPath''")
     (auto simp: overlay_maxmind_js_def overlay_maxmind_def trimmedIfString_def Let_def)

lemma overlay_ip2location_js_eq:
  "trimmedIfString (getProp (getProp src ''ip2location'') ''dbPath'') \<Longrightarrow>
   trimmedIfString (getProp (getProp src ''ip2location'') ''subdivisionCsvPath'') \<Longrightarrow>
   overlay_ip2location_js pf src t = overlay_ip2location pf src t"
  by (cases "getProp (getProp src ''ip2location'') ''dbPath''";
      cases "getProp (getProp src ''ip2location'') ''subdivisionCsvPath''")
     (auto simp: overlay_ip2location_js_def overlay_ip2location_def trimmedIfString_def Let_def)

lemma padded_js:
  "mm_dbPath (maxmind (overlayOptions_js example_platform example_coerce example_paddedPath)) =
     '' /db/geo.mmdb ''"
  by (simp add: overlay_js_defs example_paddedPath_def getProp_def Let_def
      getDefaultOptions_def expandTildePath_def)

lemma padded_trim: "trim '' /db/geo.mmdb '' = ''/db/geo.mmdb''"
  by (simp add: trim_def isWhiteSpace_def)

lemma padded_ts:
  "mm_dbPath (maxmind (overlayOptions example_platform example_paddedPath)) = ''/db/geo.mmdb''"
  by (simp add: overlay_ts_defs example_paddedPath_def getProp_def Let_def
      getDefaultOptions_def expandTildePath_def padded_trim)

lemma port0_js_ts:
  "port (overlayOptions_js example_platform example_coerce example_port0) = Fin 3000"
  "port (overlayOptions example_platform example_port0) = Fin 0"
  by (simp_all add: overlay_js_defs overlay_ts_defs example_port0_def getProp_def Let_def
      getDefaultOptions_def)

text \<open>
  Claim C10 says that the TypeScript and the JavaScript \<^verbatim>\<open>overlayOptions\<close> return the
  same configuration for every source. They do not: the TypeScript one trims a database
  path before it tests and expands it, the JavaScript one takes the string as it is; and
  the TypeScript one takes the port 0, which the JavaScript one leaves at the default.
\<close>

theorem implementations_differ:
  "overlayOptions_js example_platform example_coerce example_paddedPath \<noteq>
     overlayOptions example_platform example_paddedPath \<and>
   overlayOptions_js example_platform example_coerce example_port0 \<noteq>
     overlayOptions example_platform example_port0"
proof -
  have "mm_dbPath (maxmind (overlayOptions_js example_platform example_coerce example_paddedPath)) \<noteq>
    mm_dbPath (maxmind (overlayOptions example_platform example_paddedPath))"
    by (simp add: padded_js padded_ts)
  moreover have "port (overlayOptions_js example_platform example_coerce example_port0) \<noteq>
    port (overlayOptions example_platform example_port0)"
    by (simp add: port0_js_ts)
  ultimately show ?thesis
    by metis
qed

text \<open>
  Claim C10, amended. The two implementations return the same configuration for every
  source whose \<^verbatim>\<open>logLevel\<close> and \<^verbatim>\<open>port\<close> are absent or numbers, with the port neither 0
  nor above 65535, and whose \<^verbatim>\<open>maxmind.dbPath\<close>, \<^verbatim>\<open>ip2location.dbPath\<close> and
  \<^verbatim>\<open>ip2location.subdivisionCsvPath\<close>, where they are strings, have no white space at
  either end.
\<close>

theorem implementations_agree_on_common_domain:
  assumes "implementationsAgreeOn src"
  shows "overlayOptions_js pf coerce src = overlayOptions pf src"
proof -
  from assms have
    "numberOrAbsent (getProp src ''logLevel'')"
    "portInCommonRange (getProp src ''port'')"
    "trimmedIfString (getProp (getProp src ''maxmind'') ''dbPath'')"
    "trimmedIfString (getProp (getProp src ''ip2location'') ''dbPath'')"
    "trimmedIfString (getProp (getProp src ''ip2location'') ''subdivisionCsvPath'')"
    by (simp_all add: implementationsAgreeOn_def)
  then have sections:
    "overlay_logLevel_js coerce src = overlay_logLevel src"
    "overlay_port_js coerce src = overlay_port src"
    "overlay_enabledOutputs_js src = overlay_enabledOutputs src"
    "overlay_cors_js src = overlay_cors src"
    "overlay_maxmind_js pf src = overlay_maxmind pf src"
    "overlay_ip2location_js pf src = overlay_ip2location pf src"
    by (simp_all add: fun_eq_iff overlay_logLevel_js_eq overlay_port_js_eq
        overlay_enabledOutputs_js_eq overlay_cors_js_eq overlay_maxmind_js_eq
        overlay_ip2location_js_eq)
  show ?thesis
    unfolding overlayOptions_js_def overlayOptions_def sections by (simp only: Let_def)
qed

text \<open>A source with a fractional log level, a port, a toggle and a home-relative path.\<close>

theorem implementations_agree_on_common_domain_witness:
  "overlayOptions_js example_platform example_coerce example_wellTyped =
   overlayOptions example_platform example_wellTyped"
proof -
  have "trim ''~/geo.mmdb'' = ''~/geo.mmdb''"
    by (simp add: trim_def isWhiteSpace_def)
  then have "implementationsAgreeOn example_wellTyped"
    by (simp add: implementationsAgreeOn_def example_wellTyped_def getProp_def
        numberOrAbsent_def portInCommonRange_def trimmedIfString_def)
  then show ?thesis
    by (rule implementations_agree_on_common_domain)
qed

section \<open>Properties of the CORS matcher\<close>

lemma sanitize_pipeline:
  "filter (\<lambda>x. x \<noteq> '''')
     (map (\<lambda>x. case urlOrigin x of Some orig \<Rightarrow> orig | None \<Rightarrow> '''')
        (filter (\<lambda>x. x \<noteq> '''') (map trim os))) =
   List.map_filter (spec_sanitizeEntry urlOrigin) os"
  by (induction os) (auto simp: spec_sanitizeEntry_def split: option.splits)

text \<open>
  Claim C8. \<^verbatim>\<open>sanitizeOrigins\<close> returns \<^verbatim>\<open>null\<close> for \<^verbatim>\<open>null\<close>; for a list it returns the
  origins of the entries that survive trimming, the blank test and URL parsing, in their
  order, and \<^verbatim>\<open>null\<close> when none survives; it never returns the empty list. When
  \<^verbatim>\<open>not a url\<close> does not parse and \<^verbatim>\<open>https://example.com/\<close> has the origin
  \<^verbatim>\<open>https://example.com\<close>, the list of the two is sanitized to the list of that origin.
\<close>

theorem sanitizeOrigins_spec:
  "sanitizeOrigins urlOrigin None = None \<and>
   sanitizeOrigins urlOrigin (Some os) =
     (case List.map_filter (spec_sanitizeEntry urlOrigin) os of
        [] \<Rightarrow> None
      | r # rs \<Rightarrow> Some (r # rs)) \<and>
   sanitizeOrigins urlOrigin origs \<noteq> Some [] \<and>
   (urlOrigin ''not a url'' = None \<and>
    urlOrigin ''https://example.com/'' = Some ''https://example.com'' \<longrightarrow>
      sanitizeOrigins urlOrigin (Some [''not a url'', ''https://example.com/'']) =
        Some [''https://example.com''])"
proof -
  have general: "sanitizeOrigins urlOrigin (Some xs) =
     (case List.map_filter (spec_sanitizeEntry urlOrigin) xs of
        [] \<Rightarrow> None
      | r # rs \<Rightarrow> Some (r # rs))" for xs
    by (simp add: sanitizeOrigins_def Let_def sanitize_pipeline split: list.splits)
  have null: "sanitizeOrigins urlOrigin None = None"
    by (simp add: sanitizeOrigins_def)
  have nonempty: "sanitizeOrigins urlOrigin origs \<noteq> Some []"
    by (cases origs) (simp_all add: null general split: list.splits)
  have t1: "trim ''not a url'' = ''not a url''"
    by (simp add: trim_def isWhiteSpace_def)
  have t2: "trim ''https://example.com/'' = ''https://example.com/''"
    by (simp add: trim_def isWhiteSpace_def)
  have "sanitizeOrigins urlOrigin (Some [''not a url'', ''https://example.com/'']) =
        Some [''https://example.com'']"
    if "urlOrigin ''not a url'' = None"
       "urlOrigin ''https://example.com/'' = Some ''https://example.com''"
    using that
    by (simp add: general spec_sanitizeEntry_def t1 t2)
  with general null nonempty show ?thesis
    by blast
qed

text \<open>The example of the claim, on a parser that knows that one URL.\<close>

theorem sanitizeOrigins_spec_witness:
  "sanitizeOrigins example_urlOrigin (Some [''not a url'', ''https://example.com/'']) =
     Some [''https://example.com'']"
proof -
  have bad: "example_urlOrigin ''not a url'' = None"
    by (simp add: example_urlOrigin_def)
  have good: "example_urlOrigin ''https://example.com/'' = Some ''https://example.com''"
    by (simp add: example_urlOrigin_def)
  from bad good sanitizeOrigins_spec [of example_urlOrigin] show ?thesis
    by blast
qed

text \<open>
  Claim C9. \<^verbatim>\<open>isCorsOrigin\<close> holds exactly when the origin is not empty and is an entry
  of the stored origin list or passes the test of the stored regular expression; with
  neither a list nor a regular expression stored it holds of no origin.
  \<^verbatim>\<open>getCorsHeaders\<close> returns the one header \<^verbatim>\<open>Access-Control-Allow-Origin\<close> with the
  origin itself exactly when an origin is supplied and allowed, and \<^verbatim>\<open>null\<close> otherwise.
\<close>

theorem isCorsOrigin_spec:
  "(isCorsOrigin rxTest c origin \<longleftrightarrow>
      origin \<noteq> '''' \<and>
      ((\<exists>os. cors_origins c = Some os \<and> origin \<in> set os) \<or>
       (\<exists>r. cors_originRegEx c = Some r \<and> rxTest r origin))) \<and>
   (cors_origins c = None \<and> cors_originRegEx c = None \<longrightarrow> \<not> isCorsOrigin rxTest c origin) \<and>
   getCorsHeaders rxTest c None = None \<and>
   getCorsHeaders rxTest c (Some origin) =
     (if isCorsOrigin rxTest c origin then Some [(''Access-Control-Allow-Origin'', origin)]
      else None)"
  by (auto simp: isCorsOrigin_def getCorsHeaders_def split: option.splits)

text \<open>A matcher with one listed origin, and a matcher with nothing stored.\<close>

theorem isCorsOrigin_spec_witness:
  "isCorsOrigin example_rxTest example_cors ''https://example.com'' \<and>
   getCorsHeaders example_rxTest example_cors (Some ''https://example.com'') =
     Some [(''Access-Control-Allow-Origin'', ''https://example.com'')] \<and>
   \<not> isCorsOrigin example_rxTest \<lparr>cors_origins = None, cors_originRegEx = None\<rparr>
       ''https://example.com''"
proof -
  have listed: "cors_origins example_cors = Some [''https://example.com'']"
    by (simp add: example_cors_def)
  have allowed: "isCorsOrigin example_rxTest example_cors ''https://example.com''"
    using listed isCorsOrigin_spec [of example_rxTest example_cors "''https://example.com''"]
    by simp
  have none: "\<not> isCorsOrigin example_rxTest \<lparr>cors_origins = None, cors_originRegEx = None\<rparr>
       ''https://example.com''"
    using isCorsOrigin_spec [of example_rxTest "\<lparr>cors_origins = None, cors_originRegEx = None\<rparr>"
        "''https://example.com''"]
    by simp
  from allowed none
    isCorsOrigin_spec [of example_rxTest example_cors "''https://example.com''"]
  show ?thesis
    by simp
qed

end
